theory Spec2Isabelle
  imports Complex_Main "HOL-Library.AList" "HOL-Library.Log_Nat" "HOL-Library.Multiset"
begin

section \<open>Python strings\<close>

text \<open>
  A Python \<open>str\<close> is a sequence of code points. The model is \<open>string\<close>, one \<open>char\<close>
  per code point, which covers the code points below 256 (Latin-1). Character classes
  follow Python on that range: \<open>str.isspace\<close>, \<open>str.lower\<close>, and the \<open>\s\<close>, \<open>\d\<close>,
  \<open>\w\<close> classes of \<open>re\<close> for \<open>str\<close> patterns.
\<close>

definition code :: "char \<Rightarrow> nat" where
  "code c = of_char c"

definition in_range :: "char \<Rightarrow> char \<Rightarrow> char \<Rightarrow> bool" where
  "in_range lo hi c = (code lo \<le> code c \<and> code c \<le> code hi)"

definition is_space :: "char \<Rightarrow> bool" where
  "is_space c = (let n = code c in (9 \<le> n \<and> n \<le> 13) \<or> (28 \<le> n \<and> n \<le> 32) \<or> n = 133 \<or> n = 160)"

definition is_digit :: "char \<Rightarrow> bool" where
  "is_digit c = in_range (CHR ''0'') (CHR ''9'') c"

definition is_ascii_alnum :: "char \<Rightarrow> bool" where
  "is_ascii_alnum c = (in_range (CHR ''A'') (CHR ''Z'') c \<or> in_range (CHR ''a'') (CHR ''z'') c \<or> is_digit c)"

definition is_word :: "char \<Rightarrow> bool" where
  "is_word c = (let n = code c in
     is_ascii_alnum c \<or> c = CHR ''_'' \<or> n = 170 \<or> n = 178 \<or> n = 179 \<or> n = 181 \<or> n = 185 \<or> n = 186
     \<or> (188 \<le> n \<and> n \<le> 190) \<or> (192 \<le> n \<and> n \<le> 214) \<or> (216 \<le> n \<and> n \<le> 246) \<or> 248 \<le> n)"

definition lower_char :: "char \<Rightarrow> char" where
  "lower_char c = (let n = code c in
     if (65 \<le> n \<and> n \<le> 90) \<or> (192 \<le> n \<and> n \<le> 222 \<and> n \<noteq> 215) then char_of (n + 32) else c)"

definition lower :: "string \<Rightarrow> string" where
  "lower s = map lower_char s"

definition strip :: "string \<Rightarrow> string" where
  "strip s = rev (dropWhile is_space (rev (dropWhile is_space s)))"

text \<open>\<open>s.split()\<close>: the maximal runs of non-whitespace characters.\<close>

fun split_acc :: "string \<Rightarrow> string \<Rightarrow> string list" where
  "split_acc w [] = (if w = [] then [] else [rev w])"
| "split_acc w (c # cs) =
     (if is_space c then (if w = [] then split_acc [] cs else rev w # split_acc [] cs)
      else split_acc (c # w) cs)"

definition split_ws :: "string \<Rightarrow> string list" where
  "split_ws s = split_acc [] s"

definition nl :: char where
  "nl = CHR 0x0A"

text \<open>\<open>s.split('\n')\<close>: never empty, \<open>''.split('\n') = ['']\<close>.\<close>

fun split_nl :: "string \<Rightarrow> string list" where
  "split_nl [] = [[]]"
| "split_nl (c # cs) =
     (if c = nl then [] # split_nl cs
      else (case split_nl cs of [] \<Rightarrow> [[c]] | l # ls \<Rightarrow> (c # l) # ls))"

text \<open>\<open>sep.join(xs)\<close>.\<close>

fun join :: "string \<Rightarrow> string list \<Rightarrow> string" where
  "join sep [] = []"
| "join sep [x] = x"
| "join sep (x # y # ys) = x @ sep @ join sep (y # ys)"

text \<open>\<open>w in s\<close> on strings: \<open>w\<close> occurs in \<open>s\<close> as a contiguous substring.\<close>

fun sub_in :: "string \<Rightarrow> string \<Rightarrow> bool" where
  "sub_in w [] = (w = [])"
| "sub_in w (c # cs) = (take (length w) (c # cs) = w \<or> sub_in w cs)"

text \<open>Truthiness of \<open>d.get(k)\<close> for a string-valued key: present and not empty.\<close>

definition truthy :: "string option \<Rightarrow> bool" where
  "truthy v = (case v of None \<Rightarrow> False | Some s \<Rightarrow> s \<noteq> [])"

section \<open>Regular expressions as \<open>re\<close> matches them\<close>

text \<open>
  The patterns of the program use literals, character classes, sequence, alternation,
  greedy \<open>?\<close>, greedy bounded or unbounded repetition of a character class, capturing
  groups and \<open>\b\<close>. \<open>rmatch r st\<close> lists the ways \<open>r\<close> can match at the state \<open>st\<close> in the
  order in which the backtracking matcher of \<open>re\<close> tries them, so its head is the match
  \<open>re\<close> reports. A state is the character before the position, the rest of the text
  and the groups captured so far.
\<close>

datatype regex =
    Lit string
  | Cls "char \<Rightarrow> bool"
  | Seq regex regex
  | Alt regex regex
  | Opt regex
  | Rep "char \<Rightarrow> bool" nat "nat option"
  | Grp nat regex
  | WordB

type_synonym groups = "nat \<Rightarrow> string option"
type_synonym mstate = "char option \<times> string \<times> groups"

definition word_at :: "char option \<Rightarrow> bool" where
  "word_at p = (case p of None \<Rightarrow> False | Some c \<Rightarrow> is_word c)"

definition next_char :: "string \<Rightarrow> char option" where
  "next_char s = (case s of [] \<Rightarrow> None | c # _ \<Rightarrow> Some c)"

fun rmatch :: "regex \<Rightarrow> mstate \<Rightarrow> mstate list" where
  "rmatch (Lit w) (p, s, g) =
     (if take (length w) s = w
      then [(if w = [] then p else Some (last w), drop (length w) s, g)] else [])"
| "rmatch (Cls f) (p, s, g) =
     (case s of [] \<Rightarrow> [] | c # cs \<Rightarrow> if f c then [(Some c, cs, g)] else [])"
| "rmatch (Seq a b) st = concat (map (rmatch b) (rmatch a st))"
| "rmatch (Alt a b) st = rmatch a st @ rmatch b st"
| "rmatch (Opt a) st = rmatch a st @ [st]"
| "rmatch (Rep f m n) (p, s, g) =
     (let avail = length (takeWhile f s);
          k = (case n of None \<Rightarrow> avail | Some n' \<Rightarrow> min n' avail)
      in map (\<lambda>j. (if j = 0 then p else Some (s ! (j - 1)), drop j s, g)) (rev [m..<Suc k]))"
| "rmatch (Grp i a) (p, s, g) =
     map (\<lambda>(p', s', g'). (p', s', g'(i \<mapsto> take (length s - length s') s))) (rmatch a (p, s, g))"
| "rmatch WordB (p, s, g) =
     (if word_at p \<noteq> word_at (next_char s) then [(p, s, g)] else [])"

fun cat :: "regex list \<Rightarrow> regex" where
  "cat [] = Lit []"
| "cat [r] = r"
| "cat (r # rs) = Seq r (cat rs)"

fun alts :: "regex list \<Rightarrow> regex" where
  "alts [] = Cls (\<lambda>_. False)"
| "alts [r] = r"
| "alts (r # rs) = Alt r (alts rs)"

definition lits :: "string list \<Rightarrow> regex" where
  "lits ws = alts (map Lit ws)"

fun ngroups :: "regex \<Rightarrow> nat" where
  "ngroups (Seq a b) = ngroups a + ngroups b"
| "ngroups (Alt a b) = ngroups a + ngroups b"
| "ngroups (Opt a) = ngroups a"
| "ngroups (Grp i a) = Suc (ngroups a)"
| "ngroups r = 0"

text \<open>
  \<open>re.search(r, s)\<close>: the match at the leftmost position that has one, as the matched
  text (\<open>group(0)\<close>) and the groups; \<open>None\<close> when no position matches.
\<close>

fun search_from :: "regex \<Rightarrow> char option \<Rightarrow> string \<Rightarrow> (string \<times> groups) option" where
  "search_from r p [] =
     (case rmatch r (p, [], Map.empty) of [] \<Rightarrow> None | (p', s', g) # _ \<Rightarrow> Some ([], g))"
| "search_from r p (c # cs) =
     (case rmatch r (p, c # cs, Map.empty) of
        [] \<Rightarrow> search_from r (Some c) cs
      | (p', s', g) # _ \<Rightarrow> Some (take (Suc (length cs) - length s') (c # cs), g))"

definition re_search :: "regex \<Rightarrow> string \<Rightarrow> (string \<times> groups) option" where
  "re_search r s = search_from r None s"

text \<open>
  \<open>re.findall(r, s)\<close>: the non-overlapping matches from left to right. The counter is
  the number of characters still covered by the previous match. An item is the matched
  text when the pattern has no group, the text of the group when it has one (empty when
  the group took no part in the match), and the tuple of the groups when it has more.
  No pattern of the program matches the empty string, so the rule of \<open>re\<close> for the
  position after an empty match is not modelled.
\<close>

datatype fa_item = Str string | Tup "string list"

definition group_text :: "groups \<Rightarrow> nat \<Rightarrow> string" where
  "group_text g i = (case g i of None \<Rightarrow> [] | Some x \<Rightarrow> x)"

definition item_of :: "regex \<Rightarrow> string \<Rightarrow> groups \<Rightarrow> fa_item" where
  "item_of r m g =
     (if ngroups r = 0 then Str m
      else if ngroups r = 1 then Str (group_text g 1)
      else Tup (map (group_text g) [1..<Suc (ngroups r)]))"

fun findall_from :: "regex \<Rightarrow> nat \<Rightarrow> char option \<Rightarrow> string \<Rightarrow> fa_item list" where
  "findall_from r k p [] =
     (if 0 < k then []
      else (case rmatch r (p, [], Map.empty) of [] \<Rightarrow> [] | (p', s', g) # _ \<Rightarrow> [item_of r [] g]))"
| "findall_from r k p (c # cs) =
     (if 0 < k then findall_from r (k - 1) (Some c) cs
      else (case rmatch r (p, c # cs, Map.empty) of
              [] \<Rightarrow> findall_from r 0 (Some c) cs
            | (p', s', g) # _ \<Rightarrow>
                (let n = Suc (length cs) - length s'
                 in item_of r (take n (c # cs)) g # findall_from r (n - 1) (Some c) cs)))"

definition re_findall :: "regex \<Rightarrow> string \<Rightarrow> fa_item list" where
  "re_findall r s = findall_from r 0 None s"

section \<open>\<open>ats_parser.py\<close>: \<open>ATSParser\<close>\<close>

text \<open>
  The language model \<open>self.nlp\<close> is an external library; it enters as a parameter that
  gives, for a text, the texts of its tokens and of its noun chunks.
\<close>

record nlp =
  tokens :: "string \<Rightarrow> string list"
  noun_chunks :: "string \<Rightarrow> string list"

text \<open>\<open>self.section_patterns\<close>, in the insertion order of the dictionary.\<close>

definition section_patterns :: "(string \<times> regex) list" where
  "section_patterns =
    [(''contact'', Grp 1 (lits [''email'', ''phone'', ''mobile'', ''address'', ''linkedin'', ''github''])),
     (''summary'', Grp 1 (lits [''summary'', ''objective'', ''profile'', ''about''])),
     (''experience'', Grp 1 (lits [''experience'', ''employment'', ''work history'', ''professional experience''])),
     (''education'', Grp 1 (lits [''education'', ''academic'', ''qualifications'', ''degrees''])),
     (''skills'', Grp 1 (lits [''skills'', ''technical skills'', ''competencies'', ''expertise''])),
     (''projects'', Grp 1 (lits [''projects'', ''portfolio''])),
     (''certifications'', Grp 1 (lits [''certifications'', ''licenses'', ''credentials''])),
     (''achievements'', Grp 1 (lits [''achievements'', ''awards'', ''honors'', ''accomplishments'']))]"

subsection \<open>\<open>parse_sections\<close>\<close>

text \<open>
  The inner loop over the patterns: the first section whose pattern occurs in the
  lowercased, stripped line, provided the line has at most five words.
\<close>

definition section_found :: "string \<Rightarrow> string option" where
  "section_found line =
     (let line_lower = strip (lower line)
      in map_option fst
           (List.find (\<lambda>(section_name, pattern).
              re_search pattern line_lower \<noteq> None \<and> length (split_ws line) \<le> 5)
            section_patterns))"

text \<open>
  The loop over the lines. The dictionary \<open>sections\<close> is an association list in
  insertion order; assigning to a key that is present replaces its value in place.
\<close>

definition save_section :: "string \<Rightarrow> string list \<Rightarrow> (string \<times> string) list \<Rightarrow> (string \<times> string) list" where
  "save_section current_section section_content sections =
     (if section_content \<noteq> []
      then AList.update current_section (strip (join [nl] section_content)) sections
      else sections)"

fun parse_loop :: "string list \<Rightarrow> (string \<times> string) list \<Rightarrow> string \<Rightarrow> string list \<Rightarrow> (string \<times> string) list" where
  "parse_loop [] sections current_section section_content =
     save_section current_section section_content sections"
| "parse_loop (line # lines) sections current_section section_content =
     (case section_found line of
        Some found \<Rightarrow>
          parse_loop lines (save_section current_section section_content sections) found []
      | None \<Rightarrow> parse_loop lines sections current_section (section_content @ [line]))"

definition parse_sections :: "string \<Rightarrow> (string \<times> string) list" where
  "parse_sections text = parse_loop (split_nl text) [] ''header'' []"

subsection \<open>\<open>extract_contact_info\<close>\<close>

record contact_info =
  email :: "string option"
  phone :: "string option"
  linkedin :: "string option"
  github :: "string option"

definition email_pattern :: regex where
  "email_pattern = cat [WordB,
     Rep (\<lambda>c. is_ascii_alnum c \<or> c \<in> set ''._%+-'') 1 None, Lit ''@'',
     Rep (\<lambda>c. is_ascii_alnum c \<or> c \<in> set ''.-'') 1 None, Lit ''.'',
     Rep (\<lambda>c. in_range (CHR ''A'') (CHR ''Z'') c \<or> c = CHR ''|'' \<or> in_range (CHR ''a'') (CHR ''z'') c) 2 None,
     WordB]"

definition phone_sep :: "char \<Rightarrow> bool" where
  "phone_sep c = (c = CHR ''-'' \<or> c = CHR ''.'' \<or> is_space c)"

definition phone_pattern :: regex where
  "phone_pattern = cat [
     Opt (Grp 1 (cat [Opt (Lit ''+''), Rep is_digit 1 (Some 3), Opt (Cls phone_sep)])),
     Opt (Lit ''(''), Rep is_digit 3 (Some 3), Opt (Lit '')''), Opt (Cls phone_sep),
     Rep is_digit 3 (Some 3), Opt (Cls phone_sep), Rep is_digit 4 (Some 4)]"

definition word_or_dash :: "char \<Rightarrow> bool" where
  "word_or_dash c = (is_word c \<or> c = CHR ''-'')"

definition linkedin_pattern :: regex where
  "linkedin_pattern = cat [Lit ''linkedin.com/in/'', Rep word_or_dash 1 None]"

definition github_pattern :: regex where
  "github_pattern = cat [Lit ''github.com/'', Rep word_or_dash 1 None]"

text \<open>
  \<open>xs[0]\<close> of a non-empty \<open>findall\<close> result, as the string stored in the dictionary:
  a tuple is joined, a string is taken as it is. The source tests for a tuple in the
  phone branch only; the other three patterns have no group, so their items are strings.
\<close>

definition first_item :: "fa_item list \<Rightarrow> string option" where
  "first_item xs =
     (case xs of [] \<Rightarrow> None
      | Tup ss # _ \<Rightarrow> Some (concat ss)
      | Str s # _ \<Rightarrow> Some s)"

definition extract_contact_info :: "string \<Rightarrow> contact_info" where
  "extract_contact_info text =
     \<lparr> email = first_item (re_findall email_pattern text),
       phone = first_item (re_findall phone_pattern text),
       linkedin = first_item (re_findall linkedin_pattern (lower text)),
       github = first_item (re_findall github_pattern (lower text)) \<rparr>"

subsection \<open>\<open>extract_skills\<close>\<close>

definition skill_keywords :: "string list" where
  "skill_keywords =
    [''python'', ''java'', ''javascript'', ''c++'', ''sql'', ''html'', ''css'',
     ''react'', ''angular'', ''vue'', ''node'', ''django'', ''flask'', ''spring'',
     ''aws'', ''azure'', ''gcp'', ''docker'', ''kubernetes'', ''terraform'',
     ''machine learning'', ''deep learning'', ''nlp'', ''computer vision'',
     ''git'', ''jira'', ''agile'', ''scrum'', ''ci/cd'', ''devops'']"

text \<open>
  \<open>list(set(found_skills))\<close> keeps one copy of each skill in an order Python does not
  fix; the model keeps each skill at its last occurrence. No theorem depends on the order.
\<close>

definition extract_skills :: "nlp \<Rightarrow> string \<Rightarrow> string list" where
  "extract_skills n text =
     (let doc = lower text;
          found_tokens = filter (\<lambda>t. t \<in> set skill_keywords) (tokens n doc);
          found_chunks = filter (\<lambda>chunk_text. length (split_ws chunk_text) \<le> 3)
                           (map lower (noun_chunks n doc))
      in remdups (found_tokens @ found_chunks))"

subsection \<open>\<open>extract_experience\<close>\<close>

text \<open>
  The separator class of the date pattern holds the hyphen and the en dash; the en
  dash is not a code point below 256, so on the modelled texts the class is the hyphen.
  The dictionary \<open>current_exp\<close> is either empty or holds both keys.
\<close>

record experience_entry =
  duration :: string
  description :: string

definition date_pattern :: regex where
  "date_pattern = cat [Grp 1 (Rep is_digit 4 (Some 4)), Rep is_space 0 None,
     Cls (\<lambda>c. c = CHR ''-''), Rep is_space 0 None,
     Grp 2 (alts [Rep is_digit 4 (Some 4), Lit ''present'', Lit ''current''])]"

definition close_entry :: "experience_entry option \<Rightarrow> experience_entry list" where
  "close_entry current_exp = (case current_exp of None \<Rightarrow> [] | Some e \<Rightarrow> [e])"

fun experience_loop :: "string list \<Rightarrow> experience_entry option \<Rightarrow> experience_entry list" where
  "experience_loop [] current_exp = close_entry current_exp"
| "experience_loop (raw # lines) current_exp =
     (let line = strip raw in
      if line = [] then close_entry current_exp @ experience_loop lines None
      else (case re_search date_pattern (lower line) of
              Some (m, g) \<Rightarrow> experience_loop lines (Some \<lparr> duration = m, description = line \<rparr>)
            | None \<Rightarrow>
                (case current_exp of
                   Some e \<Rightarrow> experience_loop lines (Some (e \<lparr> description := description e @ '' '' @ line \<rparr>))
                 | None \<Rightarrow> experience_loop lines None)))"

definition extract_experience :: "string \<Rightarrow> experience_entry list" where
  "extract_experience text = experience_loop (split_nl text) None"

subsection \<open>\<open>extract_education\<close>\<close>

record education_entry =
  degree :: string
  level :: string

definition opt_dot :: regex where
  "opt_dot = Opt (Lit ''.'')"

definition degree_patterns :: "regex list" where
  "degree_patterns =
    [Grp 1 (alts [Lit ''bachelor'', Lit ''master'', Lit ''phd'', Lit ''doctorate'', Lit ''associate'',
        cat [Lit ''b'', opt_dot, Lit ''s'', opt_dot], cat [Lit ''m'', opt_dot, Lit ''s'', opt_dot],
        cat [Lit ''b'', opt_dot, Lit ''a'', opt_dot], cat [Lit ''m'', opt_dot, Lit ''a'', opt_dot]]),
     Grp 1 (lits [''undergraduate'', ''graduate'', ''postgraduate''])]"

definition extract_education :: "string \<Rightarrow> education_entry list" where
  "extract_education text =
     concat (map (\<lambda>line.
        if list_ex (\<lambda>pattern. re_search pattern (lower line) \<noteq> None) degree_patterns
        then [\<lparr> degree = strip line, level = ''detected'' \<rparr>] else [])
      (split_nl text))"

subsection \<open>\<open>analyze_formatting\<close>\<close>

text \<open>
  The metadata dictionary maps a key to a flag; \<open>metadata.get('has_images', False)\<close> is
  false when the key is absent.
\<close>

type_synonym metadata = "string \<rightharpoonup> bool"

record formatting =
  score :: int
  issues :: "string list"
  sections_found :: "string list"
  word_count :: nat

definition has_images :: "metadata \<Rightarrow> bool" where
  "has_images md = (case md ''has_images'' of None \<Rightarrow> False | Some b \<Rightarrow> b)"

definition required_sections :: "string list" where
  "required_sections = [''experience'', ''education'', ''skills'']"

definition missing_sections :: "string \<Rightarrow> string list" where
  "missing_sections text =
     filter (\<lambda>s. s \<notin> set (map fst (parse_sections text))) required_sections"

text \<open>
  The function threads \<open>score\<close> and \<open>issues\<close> through five checks in sequence; each
  check below is one of them, as a step on the pair.
\<close>

type_synonym audit = "int \<times> string list"

definition check_images :: "metadata \<Rightarrow> audit \<Rightarrow> audit" where
  "check_images md a = (case a of (sc, iss) \<Rightarrow>
     if has_images md then (sc - 10, iss @ [''Contains images - may not be ATS-friendly''])
     else (sc, iss))"

definition check_length :: "nat \<Rightarrow> audit \<Rightarrow> audit" where
  "check_length wc a = (case a of (sc, iss) \<Rightarrow>
     if wc < 300 then (sc - 15, iss @ [''Resume too short (< 300 words)''])
     else if wc > 1200 then (sc - 5, iss @ [''Resume too long (> 1200 words, ~2 pages)''])
     else (sc, iss))"

definition check_sections :: "string list \<Rightarrow> audit \<Rightarrow> audit" where
  "check_sections missing a = (case a of (sc, iss) \<Rightarrow>
     if missing \<noteq> []
     then (sc - 10 * int (length missing), iss @ [''Missing sections: '' @ join '', '' missing])
     else (sc, iss))"

definition check_email :: "contact_info \<Rightarrow> audit \<Rightarrow> audit" where
  "check_email contact a = (case a of (sc, iss) \<Rightarrow>
     if \<not> truthy (email contact) then (sc - 10, iss @ [''No email address found''])
     else (sc, iss))"

definition check_phone :: "contact_info \<Rightarrow> audit \<Rightarrow> audit" where
  "check_phone contact a = (case a of (sc, iss) \<Rightarrow>
     if \<not> truthy (phone contact) then (sc - 5, iss @ [''No phone number found''])
     else (sc, iss))"

definition run_checks :: "string \<Rightarrow> metadata \<Rightarrow> audit" where
  "run_checks text md =
     (let wc = length (split_ws text);
          contact = extract_contact_info text
      in check_phone contact (check_email contact (check_sections (missing_sections text)
           (check_length wc (check_images md (100, []))))))"

definition analyze_formatting :: "string \<Rightarrow> metadata \<Rightarrow> formatting" where
  "analyze_formatting text md =
     (let a = run_checks text md
      in \<lparr> score = max 0 (fst a), issues = snd a,
           sections_found = map fst (parse_sections text),
           word_count = length (split_ws text) \<rparr>)"

subsection \<open>\<open>parse\<close>\<close>

record parsed_data =
  sections :: "(string \<times> string) list"
  contact :: contact_info
  skills :: "string list"
  experience :: "experience_entry list"
  education :: "education_entry list"
  formatting :: formatting

definition parse :: "nlp \<Rightarrow> string \<Rightarrow> metadata \<Rightarrow> parsed_data" where
  "parse n text md =
     \<lparr> sections = parse_sections text,
       contact = extract_contact_info text,
       skills = extract_skills n text,
       experience = extract_experience text,
       education = extract_education text,
       formatting = analyze_formatting text md \<rparr>"

section \<open>\<open>keyword_matcher.py\<close>: \<open>KeywordMatcher\<close>\<close>

text \<open>
  The taxonomy \<open>self.job_roles\<close> is read from a data file and enters as a parameter.
  A field of \<open>job_data\<close> that holds a list is read with \<open>.get(key, [])\<close> everywhere, so
  an absent key is the empty list; \<open>self.job_roles.get(job_field, {})\<close> is the entry with
  every key absent when the job field is unknown.
\<close>

record job_data =
  name :: "string option"
  core_skills :: "string list"
  tools :: "string list"
  frameworks :: "string list"
  "keywords" :: "string list"

type_synonym job_roles = "string \<rightharpoonup> job_data"

definition no_job_data :: job_data where
  "no_job_data = \<lparr> name = None, core_skills = [], tools = [], frameworks = [], keywords = [] \<rparr>"

definition job_data_of :: "job_roles \<Rightarrow> string \<Rightarrow> job_data" where
  "job_data_of roles jf = (case roles jf of None \<Rightarrow> no_job_data | Some d \<Rightarrow> d)"

definition get_job_keywords :: "job_roles \<Rightarrow> string \<Rightarrow> string list" where
  "get_job_keywords roles jf =
     (let d = job_data_of roles jf
      in map lower (job_data.core_skills d @ job_data.tools d @ job_data.frameworks d @ keywords d))"

text \<open>
  \<open>round2 x\<close> is the multiple of \<open>1/100\<close> nearest to \<open>x\<close>, a tie going to the even
  multiple. Python's \<open>round(x, 2)\<close> on a double \<open>x\<close> is the double nearest to
  \<open>round2 x\<close>. The keyword matcher and the composite scores are modelled on exact
  rationals, with \<open>round2\<close> itself for \<open>round\<close>: a value of this model can differ
  from the double of the program in the last decimal, which the theorems about them
  (bounds and zero values) do not depend on. The shortlist estimate, whose claim is
  about values at a bucket boundary, is modelled on doubles.
\<close>

definition round2 :: "rat \<Rightarrow> rat" where
  "round2 x =
     (let y = x * 100; f = \<lfloor>y\<rfloor>; d = y - of_int f
      in of_int (if d < 1 / 2 then f else if 1 / 2 < d then f + 1
                 else if even f then f else f + 1) / 100)"

record kw_match =
  match_percentage :: rat
  matched_keywords :: "string list"
  missing_keywords :: "string list"
  total_required :: nat
  total_matched :: nat

text \<open>The loop over \<open>job_keywords\<close>, returning the two lists it fills.\<close>

fun match_loop :: "string list \<Rightarrow> string \<Rightarrow> string list \<times> string list" where
  "match_loop [] resume_text_lower = ([], [])"
| "match_loop (keyword # rest) resume_text_lower =
     (case match_loop rest resume_text_lower of (matched, missing) \<Rightarrow>
        if sub_in (lower keyword) resume_text_lower then (keyword # matched, missing)
        else (matched, keyword # missing))"

definition calculate_keyword_match :: "job_roles \<Rightarrow> string \<Rightarrow> string \<Rightarrow> kw_match" where
  "calculate_keyword_match roles resume_text jf =
     (let job_keywords = get_job_keywords roles jf;
          (matched, missing) = match_loop job_keywords (lower resume_text);
          percentage = (if job_keywords \<noteq> []
                        then of_nat (length matched) / of_nat (length job_keywords) * 100 else 0)
      in \<lparr> match_percentage = round2 percentage,
           matched_keywords = matched,
           missing_keywords = take 10 missing,
           total_required = length job_keywords,
           total_matched = length matched \<rparr>)"

text \<open>
  The vectoriser and the cosine of \<open>sklearn\<close> are external; they enter as a parameter
  that gives the cosine of the two documents, or \<open>None\<close> where the library raises.
\<close>

type_synonym cosine = "string \<Rightarrow> string \<Rightarrow> rat option"

definition calculate_semantic_similarity :: "cosine \<Rightarrow> job_roles \<Rightarrow> string \<Rightarrow> string \<Rightarrow> rat" where
  "calculate_semantic_similarity sim roles resume_text jf =
     (let job_description = join '' '' (get_job_keywords roles jf)
      in case sim resume_text job_description of
           Some similarity \<Rightarrow> round2 (similarity * 100)
         | None \<Rightarrow> 0)"

record categorized =
  core_skills :: "string list"
  tools :: "string list"
  frameworks :: "string list"
  other :: "string list"

definition no_skills :: categorized where
  "no_skills = \<lparr> core_skills = [], tools = [], frameworks = [], other = [] \<rparr>"

text \<open>The loop over \<open>extracted_skills\<close>; each skill is appended to one list.\<close>

fun categorize_loop :: "string list \<Rightarrow> string list \<Rightarrow> string list \<Rightarrow> string list \<Rightarrow> categorized \<Rightarrow> categorized" where
  "categorize_loop core_lower tools_lower frameworks_lower [] c = c"
| "categorize_loop core_lower tools_lower frameworks_lower (skill # rest) c =
     categorize_loop core_lower tools_lower frameworks_lower rest
       (let skill_lower = lower skill in
        if skill_lower \<in> set core_lower
        then c \<lparr> categorized.core_skills := categorized.core_skills c @ [skill] \<rparr>
        else if skill_lower \<in> set tools_lower
        then c \<lparr> categorized.tools := categorized.tools c @ [skill] \<rparr>
        else if skill_lower \<in> set frameworks_lower
        then c \<lparr> categorized.frameworks := categorized.frameworks c @ [skill] \<rparr>
        else c \<lparr> other := other c @ [skill] \<rparr>)"

definition categorize_skills :: "job_roles \<Rightarrow> string list \<Rightarrow> string \<Rightarrow> categorized" where
  "categorize_skills roles extracted_skills jf =
     (let d = job_data_of roles jf
      in categorize_loop (map lower (job_data.core_skills d)) (map lower (job_data.tools d))
           (map lower (job_data.frameworks d)) extracted_skills no_skills)"

record kw_analysis =
  keyword_match :: kw_match
  semantic_similarity :: rat
  categorized_skills :: categorized
  job_field :: string

definition analyze :: "cosine \<Rightarrow> job_roles \<Rightarrow> string \<Rightarrow> string list \<Rightarrow> string \<Rightarrow> kw_analysis" where
  "analyze sim roles resume_text extracted_skills jf =
     \<lparr> keyword_match = calculate_keyword_match roles resume_text jf,
       semantic_similarity = calculate_semantic_similarity sim roles resume_text jf,
       categorized_skills = categorize_skills roles extracted_skills jf,
       job_field = (case name (job_data_of roles jf) of None \<Rightarrow> jf | Some n \<Rightarrow> n) \<rparr>"

section \<open>\<open>scorer.py\<close>: \<open>ResumeScorer\<close>\<close>

definition WEIGHTS :: "(string \<times> (string \<times> rat) list) list" where
  "WEIGHTS =
    [(''ats'', [(''formatting'', 20 / 100), (''sections'', 20 / 100), (''readability'', 20 / 100),
                (''contact_info'', 15 / 100), (''length'', 15 / 100), (''keywords'', 10 / 100)]),
     (''job_fit'', [(''keyword_match'', 40 / 100), (''semantic_similarity'', 20 / 100),
                    (''experience_relevance'', 20 / 100), (''education_fit'', 10 / 100),
                    (''skills_coverage'', 10 / 100)])]"

text \<open>
  \<open>d[k]\<close> on a dictionary. The keys used below are literals of the program and are
  present in \<open>WEIGHTS\<close>, so the lookup never fails there.
\<close>

definition item :: "('k \<times> 'v) list \<Rightarrow> 'k \<Rightarrow> 'v" where
  "item d k = the (map_of d k)"

text \<open>\<open>sum(scores[key] * self.WEIGHTS[kind][key] for key in scores.keys())\<close>.\<close>

definition weighted_total :: "string \<Rightarrow> (string \<times> rat) list \<Rightarrow> rat" where
  "weighted_total kind scores =
     sum_list (map (\<lambda>key. item scores key * item (item WEIGHTS kind) key) (map fst scores))"

definition get_grade :: "rat \<Rightarrow> string" where
  "get_grade sc =
     (if sc \<ge> 85 then ''A''
      else if sc \<ge> 70 then ''B''
      else if sc \<ge> 50 then ''C''
      else if sc \<ge> 30 then ''D''
      else ''F'')"

record composite =
  total :: rat
  breakdown :: "(string \<times> rat) list"
  grade :: string

definition sections_score :: "(string \<times> string) list \<Rightarrow> rat" where
  "sections_score secs =
     (let required = {''experience'', ''education'', ''skills'', ''contact''};
          found_sections = set (map fst secs)
      in of_nat (card (required \<inter> found_sections)) / of_nat (card required) * 100)"

definition readability_score :: "nat \<Rightarrow> rat" where
  "readability_score wc =
     (if 300 \<le> wc \<and> wc \<le> 800 then 100
      else if 800 < wc \<and> wc \<le> 1200 then 90
      else if 200 \<le> wc \<and> wc < 300 then 70
      else 50)"

definition contact_score :: "contact_info \<Rightarrow> rat" where
  "contact_score c =
     (if truthy (email c) then 40 else 0) + (if truthy (phone c) then 30 else 0)
     + (if truthy (linkedin c) then 15 else 0) + (if truthy (github c) then 15 else 0)"

definition length_score :: "nat \<Rightarrow> rat" where
  "length_score wc =
     (if 300 \<le> wc \<and> wc \<le> 1000 then 100
      else max 50 (100 - \<bar>of_nat wc - 650\<bar> / 10))"

definition keyword_score :: "rat \<Rightarrow> rat" where
  "keyword_score percentage = min 100 (percentage * (15 / 10))"

definition calculate_ats_score :: "parsed_data \<Rightarrow> kw_analysis \<Rightarrow> composite" where
  "calculate_ats_score parsed ka =
     (let wc = word_count (formatting parsed);
          scores = [(''formatting'', of_int (score (formatting parsed))),
                    (''sections'', sections_score (sections parsed)),
                    (''readability'', readability_score wc),
                    (''contact_info'', contact_score (contact parsed)),
                    (''length'', length_score wc),
                    (''keywords'', keyword_score (match_percentage (keyword_match ka)))];
          total_score = weighted_total ''ats'' scores
      in \<lparr> total = round2 total_score, breakdown = scores, grade = get_grade total_score \<rparr>)"

definition experience_score :: "nat \<Rightarrow> rat" where
  "experience_score experience_count =
     (if experience_count \<ge> 3 then 100
      else if experience_count = 2 then 80
      else if experience_count = 1 then 60
      else 30)"

definition calculate_job_fit_score :: "parsed_data \<Rightarrow> kw_analysis \<Rightarrow> composite" where
  "calculate_job_fit_score parsed ka =
     (let scores = [(''keyword_match'', match_percentage (keyword_match ka)),
                    (''semantic_similarity'', semantic_similarity ka),
                    (''experience_relevance'', experience_score (length (experience parsed))),
                    (''education_fit'', min 100 (of_nat (length (education parsed)) * 50)),
                    (''skills_coverage'',
                       min 100 (of_nat (length (categorized.core_skills (categorized_skills ka))) * 10))];
          total_score = weighted_total ''job_fit'' scores
      in \<lparr> total = round2 total_score, breakdown = scores, grade = get_grade total_score \<rparr>)"

subsection \<open>Doubles\<close>

text \<open>
  A finite double is modelled as the rational it denotes. \<open>fl x\<close> is the double
  nearest to \<open>x\<close>, a tie going to the even significand: \<open>x\<close> is rounded to a multiple
  of its unit in the last place, \<open>2 ^ (e - 52)\<close> for \<open>2 ^ e \<le> |x| < 2 ^ (e + 1)\<close> and
  \<open>2 ^ -1074\<close> in the subnormal range. The arithmetic of doubles rounds the exact
  result in this way; a decimal literal denotes the double nearest to it. Overflow to
  an infinity is not modelled: \<open>is_double\<close> holds of the finite doubles, and the
  theorem about the shortlist estimate bounds its inputs so that no operation
  overflows.
\<close>

definition pow2 :: "int \<Rightarrow> rat" where
  "pow2 e = (if 0 \<le> e then 2 ^ nat e else 1 / 2 ^ nat (- e))"

text \<open>
  \<open>ilog2 x\<close>, for \<open>x > 0\<close>: the \<open>e\<close> with \<open>2 ^ e \<le> x < 2 ^ (e + 1)\<close>. The difference
  \<open>d\<close> of the bit lengths of numerator and denominator is \<open>e\<close> or \<open>e + 1\<close>.
\<close>

definition ilog2 :: "rat \<Rightarrow> int" where
  "ilog2 x = (case quotient_of x of (p, q) \<Rightarrow>
     (let d = bitlen p - bitlen q
      in if pow2 d \<le> x then d else d - 1))"

definition round_half_even :: "rat \<Rightarrow> int" where
  "round_half_even y =
     (let f = \<lfloor>y\<rfloor>; d = y - of_int f
      in if d < 1 / 2 then f else if 1 / 2 < d then f + 1 else if even f then f else f + 1)"

definition fl :: "rat \<Rightarrow> rat" where
  "fl x = (if x = 0 then 0
           else (let ulp = pow2 (max (ilog2 \<bar>x\<bar> - 52) (- 1074))
                 in of_int (round_half_even (x / ulp)) * ulp))"

definition is_double :: "rat \<Rightarrow> bool" where
  "is_double x = (fl x = x \<and> \<bar>x\<bar> < 2 ^ 1024)"

definition fmul :: "rat \<Rightarrow> rat \<Rightarrow> rat" where
  "fmul a b = fl (a * b)"

definition fadd :: "rat \<Rightarrow> rat \<Rightarrow> rat" where
  "fadd a b = fl (a + b)"

text \<open>\<open>round(x, 2)\<close> on a double.\<close>

definition float_round2 :: "rat \<Rightarrow> rat" where
  "float_round2 x = fl (round2 x)"

subsection \<open>\<open>calculate_shortlist_probability\<close>\<close>

text \<open>
  The arguments are doubles. \<open>combined\<close> is the local variable \<open>combined_score\<close> of
  the source, the double \<open>(ats_score * 0.45) + (job_fit_score * 0.55)\<close>; the comparisons
  with the integer thresholds are exact.
\<close>

record shortlist =
  probability :: string
  combined_score :: rat
  color :: string

definition calculate_shortlist_probability :: "rat \<Rightarrow> rat \<Rightarrow> shortlist" where
  "calculate_shortlist_probability ats_score job_fit_score =
     (let combined = fadd (fmul ats_score (fl (45 / 100))) (fmul job_fit_score (fl (55 / 100)));
          (label, col) =
            (if combined \<ge> 80 then (''Very High (85-95%)'', ''#10b981'')
             else if combined \<ge> 65 then (''High (70-85%)'', ''#3b82f6'')
             else if combined \<ge> 50 then (''Moderate (50-70%)'', ''#f59e0b'')
             else if combined \<ge> 35 then (''Low (30-50%)'', ''#ef4444'')
             else (''Very Low (< 30%)'', ''#991b1b''))
      in \<lparr> probability = label, combined_score = float_round2 combined, color = col \<rparr>)"

section \<open>\<open>analyze.py\<close>: the pipeline of \<open>analyze_resume\<close>\<close>

text \<open>
  The steps of the request handler up to the record handed to the feedback generator,
  which is an external service and is not modelled. The totals of the composites are
  decimals in the rational model; the shortlist estimate receives the doubles nearest
  to them, as \<open>round\<close> returns them in the program.
\<close>

record analysis_data =
  ats :: composite
  job_fit :: composite
  analysis :: kw_analysis
  parsed :: parsed_data
  shortlist_probability :: shortlist

definition analyze_resume :: "nlp \<Rightarrow> cosine \<Rightarrow> job_roles \<Rightarrow> string \<Rightarrow> metadata \<Rightarrow> string \<Rightarrow> analysis_data" where
  "analyze_resume n sim roles extracted_text md jf =
     (let pd = parse n extracted_text md;
          ka = analyze sim roles extracted_text (skills pd) jf;
          ats_score = calculate_ats_score pd ka;
          job_fit_score = calculate_job_fit_score pd ka
      in \<lparr> ats = ats_score, job_fit = job_fit_score, analysis = ka, parsed = pd,
           shortlist_probability =
             calculate_shortlist_probability (fl (total ats_score)) (fl (total job_fit_score)) \<rparr>)"

section \<open>Notions of the specification\<close>

text \<open>
  The definitions of this section follow the words of the specification; the theorems
  compare them with the program.
\<close>

text \<open>
  The fixed deductions of the formatting audit: 10 for images, 15 for fewer than 300
  words, 5 for more than 1200 words, 10 for each missing section, 10 for a missing
  email, 5 for a missing phone.
\<close>

definition fixed_deductions :: "bool \<Rightarrow> nat \<Rightarrow> nat \<Rightarrow> bool \<Rightarrow> bool \<Rightarrow> int" where
  "fixed_deductions images wc n_missing no_email no_phone =
     (if images then 10 else 0) + (if wc < 300 then 15 else 0) + (if wc > 1200 then 5 else 0)
     + 10 * int n_missing + (if no_email then 10 else 0) + (if no_phone then 5 else 0)"

text \<open>The order of the grades: F below D below C below B below A.\<close>

definition grade_rank :: "string \<Rightarrow> nat" where
  "grade_rank g = (if g = ''A'' then 4 else if g = ''B'' then 3 else if g = ''C'' then 2
                   else if g = ''D'' then 1 else 0)"

text \<open>
  The section blocks in line order: the maximal runs of consecutive lines that are not
  section headers, each with the label in force when the run ends (\<open>header\<close> before
  the first section header). A header line belongs to no run, and a header that
  directly follows another header opens no run.
\<close>

fun runs_from :: "string list \<Rightarrow> string \<Rightarrow> string list \<Rightarrow> (string \<times> string list) list" where
  "runs_from [] current content = (if content \<noteq> [] then [(current, content)] else [])"
| "runs_from (line # lines) current content =
     (case section_found line of
        Some found \<Rightarrow> (if content \<noteq> [] then [(current, content)] else []) @ runs_from lines found []
      | None \<Rightarrow> runs_from lines current (content @ [line]))"

definition line_runs :: "string \<Rightarrow> (string \<times> string list) list" where
  "line_runs text = runs_from (split_nl text) ''header'' []"

text \<open>The block of a run: its lines joined by newlines, stripped of surrounding whitespace.\<close>

definition block_of :: "string \<times> string list \<Rightarrow> string \<times> string" where
  "block_of r = (fst r, strip (join [nl] (snd r)))"

text \<open>Storing the block of a run under its label; a label that is present is overwritten.\<close>

definition store_block :: "(string \<times> string) list \<Rightarrow> string \<times> string list \<Rightarrow> (string \<times> string) list" where
  "store_block d r = AList.update (fst r) (strip (join [nl] (snd r))) d"

definition is_header_line :: "string \<Rightarrow> bool" where
  "is_header_line line = (section_found line \<noteq> None)"

text \<open>The input minus its header lines, and the lines of the blocks of a result.\<close>

definition non_header_lines :: "string \<Rightarrow> string list" where
  "non_header_lines text = filter (\<lambda>l. \<not> is_header_line l) (split_nl text)"

definition block_lines :: "(string \<times> string) list \<Rightarrow> string list" where
  "block_lines secs = concat (map (\<lambda>b. split_nl (snd b)) secs)"

section \<open>Sample inputs\<close>

text \<open>A tokenizer that splits at whitespace and finds no noun chunk.\<close>

definition whitespace_nlp :: nlp where
  "whitespace_nlp = \<lparr> tokens = split_ws, noun_chunks = (\<lambda>_. []) \<rparr>"

text \<open>A taxonomy whose only keyword is capitalised.\<close>

definition python_roles :: job_roles where
  "python_roles = [''dev'' \<mapsto>
     \<lparr> name = Some ''Developer'', core_skills = [''Python''], tools = [],
       frameworks = [], keywords = [] \<rparr>]"

text \<open>The contact line of the scenario, a text with a repeated header, and a resume.\<close>

definition contact_line :: string where
  "contact_line = ''john@x.com 555-123-4567 linkedin.com/in/john github.com/john''"

definition repeated_skills :: string where
  "repeated_skills = ''Skills'' @ [nl] @ ''a'' @ [nl] @ ''Skills'' @ [nl] @ ''b''"

definition sample_resume :: string where
  "sample_resume = ''Experience'' @ [nl] @ ''2020-2022 Software Engineer built APIs'' @ [nl, nl]
     @ ''Education'' @ [nl] @ ''Bachelor of Science in CS'' @ [nl, nl]
     @ ''Skills'' @ [nl] @ ''python sql''"

text \<open>
  A taxonomy with one job field of five keywords, and one whose job field is present
  with no keyword at all.
\<close>

definition empty_profile_roles :: job_roles where
  "empty_profile_roles = [''intern'' \<mapsto> no_job_data \<lparr> name := Some ''Intern'' \<rparr>]"

definition sample_roles :: job_roles where
  "sample_roles = [''data_scientist'' \<mapsto>
     \<lparr> name = Some ''Data Scientist'', core_skills = [''Python'', ''SQL''], tools = [''Jupyter''],
       frameworks = [''PyTorch''], keywords = [''statistics''] \<rparr>]"

section \<open>The formatting audit\<close>

lemma check_images_fst: "fst (check_images md a) = fst a - (if has_images md then 10 else 0)"
  by (cases a) (simp add: check_images_def)

lemma check_length_fst:
  "fst (check_length wc a) = fst a - (if wc < 300 then 15 else if wc > 1200 then 5 else 0)"
  by (cases a) (simp add: check_length_def)

lemma check_sections_fst: "fst (check_sections missing a) = fst a - 10 * int (length missing)"
  by (cases a) (simp add: check_sections_def)

lemma check_email_fst:
  "fst (check_email c a) = fst a - (if truthy (email c) then 0 else 10)"
  by (cases a) (simp add: check_email_def)

lemma check_phone_fst:
  "fst (check_phone c a) = fst a - (if truthy (phone c) then 0 else 5)"
  by (cases a) (simp add: check_phone_def)

lemmas check_fst =
  check_images_fst check_length_fst check_sections_fst check_email_fst check_phone_fst

lemma run_checks_fst:
  "fst (run_checks text md) =
     100 - (if has_images md then 10 else 0)
         - (if length (split_ws text) < 300 then 15
            else if length (split_ws text) > 1200 then 5 else 0)
         - 10 * int (length (missing_sections text))
         - (if truthy (email (extract_contact_info text)) then 0 else 10)
         - (if truthy (phone (extract_contact_info text)) then 0 else 5)"
  by (simp add: run_checks_def Let_def check_fst)

lemma missing_sections_le: "length (missing_sections text) \<le> 3"
proof -
  have "length (missing_sections text) \<le> length required_sections"
    unfolding missing_sections_def by (rule length_filter_le)
  then show ?thesis by (simp add: required_sections_def)
qed

lemma run_checks_bounds: "30 \<le> fst (run_checks text md) \<and> fst (run_checks text md) \<le> 100"
  using missing_sections_le [of "text"] by (simp add: run_checks_fst)

text \<open>
  C10. For every text and metadata the audit score is at least 30: the deductions add
  up to at most 70 (the short and the long deduction exclude each other), so the score
  returned equals the score before the clamp \<open>max(0, score)\<close>.
\<close>

theorem formatting_score_at_least_30:
  "30 \<le> score (analyze_formatting text md)
   \<and> 100 - fst (run_checks text md) \<le> 70
   \<and> score (analyze_formatting text md) = fst (run_checks text md)"
  using run_checks_bounds [of "text" md] by (simp add: analyze_formatting_def Let_def)

lemma check_images_snd:
  "snd (check_images md a) = snd a @ (if has_images md then [''Contains images - may not be ATS-friendly''] else [])"
  by (cases a) (simp add: check_images_def)

lemma check_length_snd:
  "snd (check_length wc a) = snd a @ (if wc < 300 then [''Resume too short (< 300 words)'']
      else if wc > 1200 then [''Resume too long (> 1200 words, ~2 pages)''] else [])"
  by (cases a) (simp add: check_length_def)

lemma check_sections_snd:
  "snd (check_sections missing a) =
     snd a @ (if missing \<noteq> [] then [''Missing sections: '' @ join '', '' missing] else [])"
  by (cases a) (simp add: check_sections_def)

lemma check_email_snd:
  "snd (check_email c a) = snd a @ (if truthy (email c) then [] else [''No email address found''])"
  by (cases a) (simp add: check_email_def)

lemma check_phone_snd:
  "snd (check_phone c a) = snd a @ (if truthy (phone c) then [] else [''No phone number found''])"
  by (cases a) (simp add: check_phone_def)

lemmas check_snd =
  check_images_snd check_length_snd check_sections_snd check_email_snd check_phone_snd

lemma run_checks_snd:
  "snd (run_checks text md) =
     (if has_images md then [''Contains images - may not be ATS-friendly''] else [])
     @ (if length (split_ws text) < 300 then [''Resume too short (< 300 words)'']
        else if length (split_ws text) > 1200 then [''Resume too long (> 1200 words, ~2 pages)'']
        else [])
     @ (if missing_sections text \<noteq> []
        then [''Missing sections: '' @ join '', '' (missing_sections text)] else [])
     @ (if truthy (email (extract_contact_info text)) then [] else [''No email address found''])
     @ (if truthy (phone (extract_contact_info text)) then [] else [''No phone number found''])"
  by (simp add: run_checks_def Let_def check_snd)

lemma run_checks_deductions:
  "fst (run_checks text md) =
     100 - fixed_deductions (has_images md) (length (split_ws text))
             (length (missing_sections text))
             (\<not> truthy (email (extract_contact_info text)))
             (\<not> truthy (phone (extract_contact_info text)))"
  by (simp add: run_checks_fst fixed_deductions_def)

lemma filter_length_mono:
  "(\<And>x. x \<in> set xs \<Longrightarrow> P x \<Longrightarrow> Q x) \<Longrightarrow> length (filter P xs) \<le> length (filter Q xs)"
  by (induction xs) auto

lemma missing_sections_mono:
  assumes "set (missing_sections t1) \<subseteq> set (missing_sections t2)"
  shows "length (missing_sections t1) \<le> length (missing_sections t2)"
proof -
  have "x \<in> set required_sections \<Longrightarrow> x \<notin> set (map fst (parse_sections t1))
        \<Longrightarrow> x \<notin> set (map fst (parse_sections t2))" for x
    using assms unfolding missing_sections_def by auto
  then show ?thesis
    unfolding missing_sections_def by (intro filter_length_mono) blast
qed

lemma fixed_deductions_mono:
  assumes "i1 \<longrightarrow> i2" "w1 < 300 \<longrightarrow> w2 < 300" "w1 > 1200 \<longrightarrow> w2 > 1200" "n1 \<le> n2"
    "e1 \<longrightarrow> e2" "p1 \<longrightarrow> p2"
  shows "fixed_deductions i1 w1 n1 e1 p1 \<le> fixed_deductions i2 w2 n2 e2 p2"
  using assms unfolding fixed_deductions_def by (auto split: if_splits)

text \<open>
  C8. For every text and metadata the audit starts at 100 and subtracts exactly the
  fixed deductions, the issues being appended in the order of evaluation; the score is
  clamped to a minimum of 0, so it is never below 0; and it does not increase as issues
  are added: an input to which every deduction of another input applies scores at most
  as much as that one. The email and phone flags are those of the contact record of
  \<open>extract_contact_info\<close>.
\<close>

theorem formatting_audit_deductions:
  "score (analyze_formatting text md) =
     max 0 (100 - fixed_deductions (has_images md) (word_count (analyze_formatting text md))
                    (length (missing_sections text))
                    (\<not> truthy (email (extract_contact_info text)))
                    (\<not> truthy (phone (extract_contact_info text))))
   \<and> 0 \<le> score (analyze_formatting text md)
   \<and> issues (analyze_formatting text md) =
       (if has_images md then [''Contains images - may not be ATS-friendly''] else [])
       @ (if length (split_ws text) < 300 then [''Resume too short (< 300 words)'']
          else if length (split_ws text) > 1200 then [''Resume too long (> 1200 words, ~2 pages)'']
          else [])
       @ (if missing_sections text \<noteq> []
          then [''Missing sections: '' @ join '', '' (missing_sections text)] else [])
       @ (if truthy (email (extract_contact_info text)) then [] else [''No email address found''])
       @ (if truthy (phone (extract_contact_info text)) then [] else [''No phone number found''])
   \<and> ((has_images md \<longrightarrow> has_images md')
        \<and> (length (split_ws text) < 300 \<longrightarrow> length (split_ws text') < 300)
        \<and> (length (split_ws text) > 1200 \<longrightarrow> length (split_ws text') > 1200)
        \<and> set (missing_sections text) \<subseteq> set (missing_sections text')
        \<and> (\<not> truthy (email (extract_contact_info text)) \<longrightarrow> \<not> truthy (email (extract_contact_info text')))
        \<and> (\<not> truthy (phone (extract_contact_info text)) \<longrightarrow> \<not> truthy (phone (extract_contact_info text')))
       \<longrightarrow> score (analyze_formatting text' md') \<le> score (analyze_formatting text md))"
proof (intro conjI impI)
  show "score (analyze_formatting text md) =
     max 0 (100 - fixed_deductions (has_images md) (word_count (analyze_formatting text md))
                    (length (missing_sections text))
                    (\<not> truthy (email (extract_contact_info text)))
                    (\<not> truthy (phone (extract_contact_info text))))"
    by (simp add: analyze_formatting_def Let_def run_checks_deductions)
  show "0 \<le> score (analyze_formatting text md)"
    by (simp add: analyze_formatting_def Let_def)
  show "issues (analyze_formatting text md) =
       (if has_images md then [''Contains images - may not be ATS-friendly''] else [])
       @ (if length (split_ws text) < 300 then [''Resume too short (< 300 words)'']
          else if length (split_ws text) > 1200 then [''Resume too long (> 1200 words, ~2 pages)'']
          else [])
       @ (if missing_sections text \<noteq> []
          then [''Missing sections: '' @ join '', '' (missing_sections text)] else [])
       @ (if truthy (email (extract_contact_info text)) then [] else [''No email address found''])
       @ (if truthy (phone (extract_contact_info text)) then [] else [''No phone number found''])"
    unfolding analyze_formatting_def Let_def by (simp only: formatting.simps run_checks_snd)
next
  assume h: "(has_images md \<longrightarrow> has_images md')
        \<and> (length (split_ws text) < 300 \<longrightarrow> length (split_ws text') < 300)
        \<and> (length (split_ws text) > 1200 \<longrightarrow> length (split_ws text') > 1200)
        \<and> set (missing_sections text) \<subseteq> set (missing_sections text')
        \<and> (\<not> truthy (email (extract_contact_info text)) \<longrightarrow> \<not> truthy (email (extract_contact_info text')))
        \<and> (\<not> truthy (phone (extract_contact_info text)) \<longrightarrow> \<not> truthy (phone (extract_contact_info text')))"
  then have "length (missing_sections text) \<le> length (missing_sections text')"
    by (intro missing_sections_mono) blast
  with h have "fixed_deductions (has_images md) (length (split_ws text))
             (length (missing_sections text))
             (\<not> truthy (email (extract_contact_info text)))
             (\<not> truthy (phone (extract_contact_info text)))
         \<le> fixed_deductions (has_images md') (length (split_ws text'))
             (length (missing_sections text'))
             (\<not> truthy (email (extract_contact_info text')))
             (\<not> truthy (phone (extract_contact_info text')))"
    by (intro fixed_deductions_mono) blast+
  then show "score (analyze_formatting text' md') \<le> score (analyze_formatting text md)"
    by (simp add: analyze_formatting_def Let_def run_checks_deductions)
qed

theorem formatting_audit_deductions_witness:
  "score (analyze_formatting [] [''has_images'' \<mapsto> True]) \<le> score (analyze_formatting [] Map.empty)
   \<and> score (analyze_formatting [] Map.empty) = 40
   \<and> score (analyze_formatting [] [''has_images'' \<mapsto> True]) = 30"
proof -
  have h: "(has_images Map.empty \<longrightarrow> has_images [''has_images'' \<mapsto> True])
        \<and> (length (split_ws []) < 300 \<longrightarrow> length (split_ws []) < 300)
        \<and> (length (split_ws []) > 1200 \<longrightarrow> length (split_ws []) > 1200)
        \<and> set (missing_sections []) \<subseteq> set (missing_sections [])
        \<and> (\<not> truthy (email (extract_contact_info [])) \<longrightarrow> \<not> truthy (email (extract_contact_info [])))
        \<and> (\<not> truthy (phone (extract_contact_info [])) \<longrightarrow> \<not> truthy (phone (extract_contact_info [])))"
    by (simp add: has_images_def)
  have e: "score (analyze_formatting [] Map.empty) = 40"
    by code_simp
  from formatting_audit_deductions [of "[]" Map.empty "[''has_images'' \<mapsto> True]" "[]"] h
  have "score (analyze_formatting [] [''has_images'' \<mapsto> True]) \<le> score (analyze_formatting [] Map.empty)"
    by blast
  moreover have "score (analyze_formatting [] [''has_images'' \<mapsto> True]) = 30"
    by code_simp
  ultimately show ?thesis using e by simp
qed

section \<open>The shortlist estimate\<close>

lemma shortlist_examples:
  "calculate_shortlist_probability (fl (9807 / 100)) (fl (1067 / 100))
     = \<lparr> probability = ''Low (30-50%)'', combined_score = 50, color = ''#ef4444'' \<rparr>
   \<and> calculate_shortlist_probability (fl (235 / 10)) (fl (74 / 10))
     = \<lparr> probability = ''Very Low (< 30%)'', combined_score = fl (1465 / 100), color = ''#991b1b'' \<rparr>
   \<and> calculate_shortlist_probability (fl (1 / 10)) 0
     = \<lparr> probability = ''Very Low (< 30%)'', combined_score = fl (5 / 100), color = ''#991b1b'' \<rparr>
   \<and> calculate_shortlist_probability (fl (7999 / 100)) 80
     = \<lparr> probability = ''High (70-85%)'', combined_score = 80, color = ''#3b82f6'' \<rparr>
   \<and> calculate_shortlist_probability 80 80
     = \<lparr> probability = ''Very High (85-95%)'', combined_score = 80, color = ''#10b981'' \<rparr>"
  by code_simp

text \<open>
  C9. The shortlist estimate computes \<open>combined = ats_total * 0.45 + job_fit_total * 0.55\<close>,
  in the arithmetic of doubles, and buckets it at the thresholds 80, 65, 50 and 35 into
  the five fixed labels; a combined value of exactly 80.00 gets the label "Very High"
  and a combined value of 79.99, the double of that literal, gets "High". The label
  strings of the program carry a percentage range after the name of the bucket. The
  value that is bucketed is the unrounded one; the field \<open>combined_score\<close> of the result
  is its rounding to two decimals. The inputs are finite doubles of magnitude at most
  \<open>2 ^ 1023\<close>, for which no operation overflows.
\<close>

theorem shortlist_buckets:
  assumes "is_double a" and "is_double j" and "\<bar>a\<bar> \<le> 2 ^ 1023" and "\<bar>j\<bar> \<le> 2 ^ 1023"
  shows "probability (calculate_shortlist_probability a j) =
     (let combined = fadd (fmul a (fl (45 / 100))) (fmul j (fl (55 / 100))) in
      if combined \<ge> 80 then ''Very High (85-95%)''
      else if combined \<ge> 65 then ''High (70-85%)''
      else if combined \<ge> 50 then ''Moderate (50-70%)''
      else if combined \<ge> 35 then ''Low (30-50%)''
      else ''Very Low (< 30%)'')
   \<and> combined_score (calculate_shortlist_probability a j)
       = float_round2 (fadd (fmul a (fl (45 / 100))) (fmul j (fl (55 / 100))))
   \<and> (fadd (fmul a (fl (45 / 100))) (fmul j (fl (55 / 100))) = 80
        \<longrightarrow> probability (calculate_shortlist_probability a j) = ''Very High (85-95%)'')
   \<and> (fadd (fmul a (fl (45 / 100))) (fmul j (fl (55 / 100))) = fl (7999 / 100)
        \<longrightarrow> probability (calculate_shortlist_probability a j) = ''High (70-85%)'')"
proof -
  have d: "fl (7999 / 100) = 5628795846771343 / 70368744177664"
    by code_simp
  show ?thesis
    by (simp add: calculate_shortlist_probability_def Let_def d)
qed

theorem shortlist_buckets_witness:
  "probability (calculate_shortlist_probability (fl (6746 / 100)) (fl (9026 / 100)))
     = ''Very High (85-95%)''
   \<and> probability (calculate_shortlist_probability (fl (5887 / 100)) (fl (9727 / 100)))
     = ''High (70-85%)''"
proof -
  have v: "fl (6746 / 100) = 4747075482225213 / 70368744177664"
    "fl (9026 / 100) = 6351482849475953 / 70368744177664"
    "fl (5887 / 100) = 8285215939478159 / 140737488355328"
    "fl (9727 / 100) = 6844767746161377 / 70368744177664"
    by code_simp+
  have f: "fl (4747075482225213 / 70368744177664) = 4747075482225213 / 70368744177664"
    "fl (6351482849475953 / 70368744177664) = 6351482849475953 / 70368744177664"
    "fl (8285215939478159 / 140737488355328) = 8285215939478159 / 140737488355328"
    "fl (6844767746161377 / 70368744177664) = 6844767746161377 / 70368744177664"
    by code_simp+
  have a1: "is_double (fl (6746 / 100))" and j1: "is_double (fl (9026 / 100))"
    and a2: "is_double (fl (5887 / 100))" and j2: "is_double (fl (9727 / 100))"
    unfolding v by (simp_all add: is_double_def f)
  have b1: "\<bar>fl (6746 / 100)\<bar> \<le> 2 ^ 1023" and c1: "\<bar>fl (9026 / 100)\<bar> \<le> 2 ^ 1023"
    and b2: "\<bar>fl (5887 / 100)\<bar> \<le> 2 ^ 1023" and c2: "\<bar>fl (9727 / 100)\<bar> \<le> 2 ^ 1023"
    unfolding v by simp_all
  have e1: "fadd (fmul (fl (6746 / 100)) (fl (45 / 100))) (fmul (fl (9026 / 100)) (fl (55 / 100))) = 80"
    by code_simp
  have e2: "fadd (fmul (fl (5887 / 100)) (fl (45 / 100))) (fmul (fl (9727 / 100)) (fl (55 / 100)))
      = fl (7999 / 100)"
    by code_simp
  from shortlist_buckets [OF a1 j1 b1 c1] e1
  have 1: "probability (calculate_shortlist_probability (fl (6746 / 100)) (fl (9026 / 100)))
     = ''Very High (85-95%)''"
    by blast
  from shortlist_buckets [OF a2 j2 b2 c2] e2
  have 2: "probability (calculate_shortlist_probability (fl (5887 / 100)) (fl (9727 / 100)))
     = ''High (70-85%)''"
    by blast
  from 1 2 show ?thesis by blast
qed

section \<open>The composite scores\<close>

lemma round2_bounds:
  assumes "0 \<le> x" "x \<le> 100"
  shows "0 \<le> round2 x \<and> round2 x \<le> 100"
proof -
  define y where "y = x * 100"
  define f where "f = \<lfloor>y\<rfloor>"
  have y: "0 \<le> y" "y \<le> 10000" using assms by (simp_all add: y_def)
  have f0: "0 \<le> f" using y by (simp add: f_def)
  have f1: "f \<le> 10000" using y unfolding f_def by (simp add: floor_le_iff)
  have f2: "f + 1 \<le> 10000" if "of_int f < y"
  proof -
    have "of_int f < (10000::rat)" using that y by linarith
    then have "f < 10000" by linarith
    then show ?thesis by simp
  qed
  have r: "round2 x = of_int (if y - of_int f < 1 / 2 then f else if 1 / 2 < y - of_int f then f + 1
                 else if even f then f else f + 1) / 100"
    by (simp add: round2_def Let_def y_def f_def)
  show ?thesis
  proof (cases "y - of_int f < 1 / 2")
    case True
    then show ?thesis using f0 f1 by (simp add: r)
  next
    case False
    then have "of_int f < y" by linarith
    then have "f + 1 \<le> 10000" by (rule f2)
    then have a: "(of_int (f + 1) :: rat) \<le> 10000" by linarith
    have b: "(0::rat) \<le> of_int f" "(of_int f :: rat) \<le> 10000" using f0 f1 by simp_all
    have c: "(0::rat) \<le> of_int (f + 1)" using f0 by simp
    show ?thesis using False a b c by (auto simp: r)
  qed
qed

lemma weighted_total_ats:
  "weighted_total ''ats'' [(''formatting'', a), (''sections'', b), (''readability'', c),
       (''contact_info'', d), (''length'', e), (''keywords'', f)]
   = a * (20 / 100) + b * (20 / 100) + c * (20 / 100) + d * (15 / 100) + e * (15 / 100) + f * (10 / 100)"
  by (simp add: weighted_total_def item_def WEIGHTS_def)

lemma weighted_total_job_fit:
  "weighted_total ''job_fit'' [(''keyword_match'', a), (''semantic_similarity'', b),
       (''experience_relevance'', c), (''education_fit'', d), (''skills_coverage'', e)]
   = a * (40 / 100) + b * (20 / 100) + c * (20 / 100) + d * (10 / 100) + e * (10 / 100)"
  by (simp add: weighted_total_def item_def WEIGHTS_def)

lemma sections_score_bounds: "0 \<le> sections_score secs \<and> sections_score secs \<le> 100"
proof -
  let ?req = "{''experience'', ''education'', ''skills'', ''contact''}"
  have c4: "card ?req = 4" by simp
  have "card (?req \<inter> set (map fst secs)) \<le> card ?req"
    by (intro card_mono) auto
  then have "card (?req \<inter> set (map fst secs)) \<le> 4" using c4 by simp
  then have "(of_nat (card (?req \<inter> set (map fst secs))) :: rat) \<le> 4"
    by (metis of_nat_le_iff of_nat_numeral)
  then show ?thesis
    unfolding sections_score_def Let_def c4 by simp
qed

lemma readability_score_bounds: "0 \<le> readability_score wc \<and> readability_score wc \<le> 100"
  by (simp add: readability_score_def)

lemma contact_score_bounds: "0 \<le> contact_score c \<and> contact_score c \<le> 100"
  by (simp add: contact_score_def)

lemma length_score_bounds: "0 \<le> length_score wc \<and> length_score wc \<le> 100"
proof -
  have "(0::rat) \<le> \<bar>of_nat wc - 650\<bar> / 10" by simp
  then have "(50::rat) \<le> max 50 (100 - \<bar>of_nat wc - 650\<bar> / 10)
      \<and> max 50 (100 - \<bar>of_nat wc - 650\<bar> / 10) \<le> (100::rat)"
    by linarith
  then show ?thesis by (auto simp: length_score_def)
qed

lemma keyword_score_bounds: "0 \<le> p \<Longrightarrow> 0 \<le> keyword_score p \<and> keyword_score p \<le> 100"
  by (simp add: keyword_score_def)

lemma experience_score_bounds: "0 \<le> experience_score k \<and> experience_score k \<le> 100"
  by (simp add: experience_score_def)

lemma match_loop_filter:
  "match_loop ks t = (filter (\<lambda>k. sub_in (lower k) t) ks, filter (\<lambda>k. \<not> sub_in (lower k) t) ks)"
  by (induction ks) auto

lemma match_percentage_bounds:
  "0 \<le> match_percentage (calculate_keyword_match roles t jf)
   \<and> match_percentage (calculate_keyword_match roles t jf) \<le> 100"
proof -
  let ?ks = "get_job_keywords roles jf"
  let ?m = "filter (\<lambda>k. sub_in (lower k) (lower t)) ?ks"
  have mp: "match_percentage (calculate_keyword_match roles t jf) =
     round2 (if ?ks \<noteq> [] then of_nat (length ?m) / of_nat (length ?ks) * 100 else 0)"
    by (simp add: calculate_keyword_match_def Let_def match_loop_filter)
  have "0 \<le> (if ?ks \<noteq> [] then (of_nat (length ?m) :: rat) / of_nat (length ?ks) * 100 else 0)
      \<and> (if ?ks \<noteq> [] then (of_nat (length ?m) :: rat) / of_nat (length ?ks) * 100 else 0) \<le> 100"
  proof (cases "?ks = []")
    case True
    then show ?thesis by simp
  next
    case False
    define q :: rat where "q = of_nat (length ?m) / of_nat (length ?ks)"
    have pos: "(0::rat) < of_nat (length ?ks)" using False by simp
    have "(of_nat (length ?m) :: rat) \<le> of_nat (length ?ks)"
      by (simp only: of_nat_le_iff length_filter_le)
    then have "q \<le> 1" unfolding q_def using pos by simp
    moreover have "0 \<le> q" unfolding q_def by simp
    ultimately have "0 \<le> q * 100 \<and> q * 100 \<le> 100" by simp
    then show ?thesis using False unfolding q_def by (simp del: times_divide_eq_left)
  qed
  then show ?thesis unfolding mp by (intro round2_bounds) simp_all
qed

lemma semantic_similarity_bounds:
  assumes "\<forall>x y s. sim x y = Some s \<longrightarrow> 0 \<le> s \<and> s \<le> 1"
  shows "0 \<le> calculate_semantic_similarity sim roles t jf
         \<and> calculate_semantic_similarity sim roles t jf \<le> 100"
proof (cases "sim t (join '' '' (get_job_keywords roles jf))")
  case None
  then show ?thesis by (simp add: calculate_semantic_similarity_def Let_def)
next
  case (Some s)
  with assms have "0 \<le> s \<and> s \<le> 1" by blast
  then have "0 \<le> round2 (s * 100) \<and> round2 (s * 100) \<le> 100"
    by (intro round2_bounds) simp_all
  with Some show ?thesis by (simp add: calculate_semantic_similarity_def Let_def)
qed

lemma formatting_score_bounds:
  "0 \<le> score (analyze_formatting t md) \<and> score (analyze_formatting t md) \<le> 100"
  using run_checks_bounds [of t md] by (simp add: analyze_formatting_def Let_def)

lemma ats_total_score_bounds:
  "0 \<le> weighted_total ''ats'' (breakdown (calculate_ats_score (parse n t md) (analyze sim roles t sk jf)))
   \<and> weighted_total ''ats'' (breakdown (calculate_ats_score (parse n t md) (analyze sim roles t sk jf))) \<le> 100"
proof -
  let ?a = "(of_int (score (analyze_formatting t md)) :: rat)"
  let ?b = "sections_score (parse_sections t)"
  let ?c = "readability_score (word_count (analyze_formatting t md))"
  let ?d = "contact_score (extract_contact_info t)"
  let ?e = "length_score (word_count (analyze_formatting t md))"
  let ?f = "keyword_score (match_percentage (calculate_keyword_match roles t jf))"
  have a: "0 \<le> ?a \<and> ?a \<le> 100" using formatting_score_bounds [of t md] by simp
  have f: "0 \<le> ?f \<and> ?f \<le> 100"
    using match_percentage_bounds [of roles t jf] by (intro keyword_score_bounds) blast
  have "weighted_total ''ats'' (breakdown (calculate_ats_score (parse n t md) (analyze sim roles t sk jf)))
     = ?a * (20 / 100) + ?b * (20 / 100) + ?c * (20 / 100) + ?d * (15 / 100) + ?e * (15 / 100) + ?f * (10 / 100)"
    by (simp only: calculate_ats_score_def Let_def composite.simps parse_def parsed_data.simps
          analyze_def kw_analysis.simps weighted_total_ats)
  moreover note a f sections_score_bounds [of "parse_sections t"]
    readability_score_bounds [of "word_count (analyze_formatting t md)"]
    contact_score_bounds [of "extract_contact_info t"]
    length_score_bounds [of "word_count (analyze_formatting t md)"]
  ultimately show ?thesis by linarith
qed

lemma job_fit_total_score_bounds:
  assumes "\<forall>x y s. sim x y = Some s \<longrightarrow> 0 \<le> s \<and> s \<le> 1"
  shows "0 \<le> weighted_total ''job_fit'' (breakdown (calculate_job_fit_score (parse n t md) (analyze sim roles t sk jf)))
   \<and> weighted_total ''job_fit'' (breakdown (calculate_job_fit_score (parse n t md) (analyze sim roles t sk jf))) \<le> 100"
proof -
  let ?a = "match_percentage (calculate_keyword_match roles t jf)"
  let ?b = "calculate_semantic_similarity sim roles t jf"
  let ?c = "experience_score (length (extract_experience t))"
  let ?d = "min 100 ((of_nat (length (extract_education t)) :: rat) * 50)"
  let ?e = "min 100 ((of_nat (length (categorized.core_skills (categorize_skills roles sk jf))) :: rat) * 10)"
  have d: "0 \<le> ?d \<and> ?d \<le> 100" by simp
  have e: "0 \<le> ?e \<and> ?e \<le> 100" by simp
  have "weighted_total ''job_fit'' (breakdown (calculate_job_fit_score (parse n t md) (analyze sim roles t sk jf)))
     = ?a * (40 / 100) + ?b * (20 / 100) + ?c * (20 / 100) + ?d * (10 / 100) + ?e * (10 / 100)"
    by (simp only: calculate_job_fit_score_def Let_def composite.simps parse_def parsed_data.simps
          analyze_def kw_analysis.simps weighted_total_job_fit)
  moreover note d e match_percentage_bounds [of roles t jf]
    semantic_similarity_bounds [OF assms, of roles t jf]
    experience_score_bounds [of "length (extract_experience t)"]
  ultimately show ?thesis by linarith
qed

lemma ats_total_eq:
  "total (calculate_ats_score p k) = round2 (weighted_total ''ats'' (breakdown (calculate_ats_score p k)))"
  by (simp add: calculate_ats_score_def Let_def)

lemma job_fit_total_eq:
  "total (calculate_job_fit_score p k) = round2 (weighted_total ''job_fit'' (breakdown (calculate_job_fit_score p k)))"
  by (simp add: calculate_job_fit_score_def Let_def)

lemma get_grade_mono: "t1 \<le> t2 \<Longrightarrow> grade_rank (get_grade t1) \<le> grade_rank (get_grade t2)"
  by (simp add: get_grade_def grade_rank_def)

text \<open>
  C7. For every input of the pipeline the totals of both composite scores lie in
  \<open>[0, 100]\<close>, and the grade mapping is monotone: \<open>t1 \<le> t2\<close> gives
  \<open>grade(t1) \<le> grade(t2)\<close> in the order F, D, C, B, A, the grade being A from 85,
  B from 70, C from 50, D from 30 and F below. The cosine of the external
  vectoriser is assumed to lie in \<open>[0, 1]\<close>.
\<close>

theorem composite_totals_and_grades:
  assumes "\<forall>x y s. sim x y = Some s \<longrightarrow> 0 \<le> s \<and> s \<le> 1"
  shows "0 \<le> total (ats (analyze_resume n sim roles t md jf))
       \<and> total (ats (analyze_resume n sim roles t md jf)) \<le> 100
       \<and> 0 \<le> total (job_fit (analyze_resume n sim roles t md jf))
       \<and> total (job_fit (analyze_resume n sim roles t md jf)) \<le> 100
       \<and> get_grade t1 = (if 85 \<le> t1 then ''A'' else if 70 \<le> t1 then ''B''
                          else if 50 \<le> t1 then ''C'' else if 30 \<le> t1 then ''D'' else ''F'')
       \<and> (t1 \<le> t2 \<longrightarrow> grade_rank (get_grade t1) \<le> grade_rank (get_grade t2))"
proof -
  let ?sk = "skills (parse n t md)"
  have a: "ats (analyze_resume n sim roles t md jf)
           = calculate_ats_score (parse n t md) (analyze sim roles t ?sk jf)"
    by (simp add: analyze_resume_def Let_def)
  have j: "job_fit (analyze_resume n sim roles t md jf)
           = calculate_job_fit_score (parse n t md) (analyze sim roles t ?sk jf)"
    by (simp add: analyze_resume_def Let_def)
  have 1: "0 \<le> total (ats (analyze_resume n sim roles t md jf))
       \<and> total (ats (analyze_resume n sim roles t md jf)) \<le> 100"
    unfolding a ats_total_eq
    using ats_total_score_bounds [of n t md sim roles ?sk jf] by (intro round2_bounds) blast+
  have 2: "0 \<le> total (job_fit (analyze_resume n sim roles t md jf))
       \<and> total (job_fit (analyze_resume n sim roles t md jf)) \<le> 100"
    unfolding j job_fit_total_eq
    using job_fit_total_score_bounds [OF assms, of n t md roles ?sk jf] by (intro round2_bounds) blast+
  have 3: "get_grade t1 = (if 85 \<le> t1 then ''A'' else if 70 \<le> t1 then ''B''
                          else if 50 \<le> t1 then ''C'' else if 30 \<le> t1 then ''D'' else ''F'')"
    by (simp add: get_grade_def)
  from 1 2 3 get_grade_mono [of t1 t2] show ?thesis by blast
qed

theorem composite_totals_and_grades_witness:
  "0 \<le> total (ats (analyze_resume \<lparr> tokens = split_ws, noun_chunks = (\<lambda>_. []) \<rparr>
            (\<lambda>_ _. Some (1 / 2)) Map.empty ''python sql'' Map.empty ''x''))
   \<and> total (ats (analyze_resume \<lparr> tokens = split_ws, noun_chunks = (\<lambda>_. []) \<rparr>
            (\<lambda>_ _. Some (1 / 2)) Map.empty ''python sql'' Map.empty ''x'')) \<le> 100
   \<and> 0 \<le> total (job_fit (analyze_resume \<lparr> tokens = split_ws, noun_chunks = (\<lambda>_. []) \<rparr>
            (\<lambda>_ _. Some (1 / 2)) Map.empty ''python sql'' Map.empty ''x''))
   \<and> total (job_fit (analyze_resume \<lparr> tokens = split_ws, noun_chunks = (\<lambda>_. []) \<rparr>
            (\<lambda>_ _. Some (1 / 2)) Map.empty ''python sql'' Map.empty ''x'')) \<le> 100
   \<and> grade_rank (get_grade 20) \<le> grade_rank (get_grade 90)"
proof -
  have h: "\<forall>x y s. (\<lambda>_ _. Some (1 / 2)) (x::string) (y::string) = Some s \<longrightarrow> 0 \<le> s \<and> s \<le> (1::rat)"
    by simp
  have le: "(20::rat) \<le> 90" by simp
  from composite_totals_and_grades [OF h, of _ _ _ _ _ 20 90] le show ?thesis by blast
qed

section \<open>Skill categories and the empty profile\<close>

lemma categorize_loop_filter:
  "categorize_loop cls tls fls sk c =
     \<lparr> categorized.core_skills = categorized.core_skills c @ filter (\<lambda>s. lower s \<in> set cls) sk,
       tools = categorized.tools c @ filter (\<lambda>s. lower s \<notin> set cls \<and> lower s \<in> set tls) sk,
       frameworks = categorized.frameworks c
          @ filter (\<lambda>s. lower s \<notin> set cls \<and> lower s \<notin> set tls \<and> lower s \<in> set fls) sk,
       other = other c
          @ filter (\<lambda>s. lower s \<notin> set cls \<and> lower s \<notin> set tls \<and> lower s \<notin> set fls) sk \<rparr>"
  by (induction sk arbitrary: c) (simp_all add: Let_def)

lemma categorize_skills_filter:
  "categorize_skills roles sk jf =
    (let d = job_data_of roles jf;
         cls = map lower (job_data.core_skills d);
         tls = map lower (job_data.tools d);
         fls = map lower (job_data.frameworks d)
     in \<lparr> categorized.core_skills = filter (\<lambda>s. lower s \<in> set cls) sk,
          tools = filter (\<lambda>s. lower s \<notin> set cls \<and> lower s \<in> set tls) sk,
          frameworks = filter (\<lambda>s. lower s \<notin> set cls \<and> lower s \<notin> set tls \<and> lower s \<in> set fls) sk,
          other = filter (\<lambda>s. lower s \<notin> set cls \<and> lower s \<notin> set tls \<and> lower s \<notin> set fls) sk \<rparr>)"
  by (simp add: categorize_skills_def Let_def categorize_loop_filter no_skills_def)

lemma mset_four_filters:
  "mset (filter (\<lambda>s. A s) xs) + mset (filter (\<lambda>s. \<not> A s \<and> B s) xs)
   + mset (filter (\<lambda>s. \<not> A s \<and> \<not> B s \<and> C s) xs)
   + mset (filter (\<lambda>s. \<not> A s \<and> \<not> B s \<and> \<not> C s) xs) = mset xs"
  by (induction xs) auto

text \<open>
  C6. For every list of extracted skills and every job field the four buckets
  partition the input: each bucket is the sublist of the input skills, in their original
  casing, selected by case-insensitive membership with the precedence core, tools,
  frameworks, other; together they hold every input skill exactly as often as the
  input does, and no skill is in two buckets.
\<close>

theorem categorize_skills_partition:
  "(let d = job_data_of roles jf;
        cls = map lower (job_data.core_skills d);
        tls = map lower (job_data.tools d);
        fls = map lower (job_data.frameworks d);
        c = categorize_skills roles sk jf
    in categorized.core_skills c = filter (\<lambda>s. lower s \<in> set cls) sk
     \<and> categorized.tools c = filter (\<lambda>s. lower s \<notin> set cls \<and> lower s \<in> set tls) sk
     \<and> categorized.frameworks c
         = filter (\<lambda>s. lower s \<notin> set cls \<and> lower s \<notin> set tls \<and> lower s \<in> set fls) sk
     \<and> other c = filter (\<lambda>s. lower s \<notin> set cls \<and> lower s \<notin> set tls \<and> lower s \<notin> set fls) sk
     \<and> mset (categorized.core_skills c) + mset (categorized.tools c)
         + mset (categorized.frameworks c) + mset (other c) = mset sk
     \<and> set (categorized.core_skills c) \<inter> set (categorized.tools c) = {}
     \<and> set (categorized.core_skills c) \<inter> set (categorized.frameworks c) = {}
     \<and> set (categorized.core_skills c) \<inter> set (other c) = {}
     \<and> set (categorized.tools c) \<inter> set (categorized.frameworks c) = {}
     \<and> set (categorized.tools c) \<inter> set (other c) = {}
     \<and> set (categorized.frameworks c) \<inter> set (other c) = {})"
proof -
  have m: "mset (categorized.core_skills (categorize_skills roles sk jf))
         + mset (categorized.tools (categorize_skills roles sk jf))
         + mset (categorized.frameworks (categorize_skills roles sk jf))
         + mset (other (categorize_skills roles sk jf)) = mset sk"
    by (simp only: categorize_skills_filter Let_def categorized.simps mset_four_filters)
  show ?thesis
    unfolding Let_def
    apply (intro conjI)
              apply (simp add: categorize_skills_filter Let_def)
             apply (simp add: categorize_skills_filter Let_def)
            apply (simp add: categorize_skills_filter Let_def)
           apply (simp add: categorize_skills_filter Let_def)
          apply (rule m)
         apply (auto simp: categorize_skills_filter Let_def)
    done
qed

lemma round2_zero: "round2 0 = 0"
  by (simp add: round2_def)

lemma get_job_keywords_unknown: "roles jf = None \<Longrightarrow> get_job_keywords roles jf = []"
  by (simp add: get_job_keywords_def job_data_of_def no_job_data_def)

text \<open>
  C5. If the job field is absent from the taxonomy, or its profile has no keyword,
  then the keyword match has \<open>total_required = 0\<close> and \<open>match_percentage = 0\<close>, and
  every extracted skill is in the bucket "other".
\<close>

theorem no_profile_defaults:
  assumes "roles jf = None \<or> get_job_keywords roles jf = []"
  shows "total_required (calculate_keyword_match roles t jf) = 0
       \<and> match_percentage (calculate_keyword_match roles t jf) = 0
       \<and> categorize_skills roles sk jf
           = \<lparr> categorized.core_skills = [], tools = [], frameworks = [], other = sk \<rparr>"
proof -
  from assms have k: "get_job_keywords roles jf = []"
    using get_job_keywords_unknown by blast
  then have e: "job_data.core_skills (job_data_of roles jf) = []"
     "job_data.tools (job_data_of roles jf) = []"
     "job_data.frameworks (job_data_of roles jf) = []"
    by (simp_all add: get_job_keywords_def Let_def)
  have "total_required (calculate_keyword_match roles t jf) = 0"
    by (simp add: calculate_keyword_match_def Let_def k)
  moreover have "match_percentage (calculate_keyword_match roles t jf) = 0"
    by (simp add: calculate_keyword_match_def Let_def k round2_zero)
  moreover have "categorize_skills roles sk jf
           = \<lparr> categorized.core_skills = [], tools = [], frameworks = [], other = sk \<rparr>"
    by (simp add: categorize_skills_filter Let_def e)
  ultimately show ?thesis by blast
qed

theorem no_profile_defaults_witness:
  "total_required (calculate_keyword_match Map.empty ''I know python'' ''data_scientist'') = 0
   \<and> match_percentage (calculate_keyword_match Map.empty ''I know python'' ''data_scientist'') = 0
   \<and> categorize_skills Map.empty [''python'', ''SQL''] ''data_scientist''
       = \<lparr> categorized.core_skills = [], tools = [], frameworks = [], other = [''python'', ''SQL''] \<rparr>
   \<and> total_required (calculate_keyword_match empty_profile_roles ''I know python'' ''intern'') = 0
   \<and> match_percentage (calculate_keyword_match empty_profile_roles ''I know python'' ''intern'') = 0
   \<and> categorize_skills empty_profile_roles [''python'', ''SQL''] ''intern''
       = \<lparr> categorized.core_skills = [], tools = [], frameworks = [], other = [''python'', ''SQL''] \<rparr>"
proof -
  have a: "(Map.empty :: job_roles) ''data_scientist'' = None
        \<or> get_job_keywords Map.empty ''data_scientist'' = []"
    by simp
  have b: "empty_profile_roles ''intern'' = None
        \<or> get_job_keywords empty_profile_roles ''intern'' = []"
    by (simp add: empty_profile_roles_def get_job_keywords_def job_data_of_def no_job_data_def)
  from no_profile_defaults [OF a] no_profile_defaults [OF b] show ?thesis by blast
qed

section \<open>The section segmenter\<close>

lemma parse_loop_runs:
  "parse_loop lines secs cur content = foldl store_block secs (runs_from lines cur content)"
proof (induction lines arbitrary: secs cur content)
  case Nil
  show ?case by (simp add: save_section_def store_block_def)
next
  case (Cons line lines)
  show ?case
  proof (cases "section_found line")
    case None
    then show ?thesis by (simp add: Cons.IH)
  next
    case (Some found)
    then show ?thesis by (simp add: Cons.IH save_section_def store_block_def)
  qed
qed

lemma runs_from_concat:
  "concat (map snd (runs_from lines cur content))
     = content @ filter (\<lambda>l. \<not> is_header_line l) lines"
proof (induction lines arbitrary: cur content)
  case Nil
  show ?case by simp
next
  case (Cons line lines)
  show ?case
    by (cases "section_found line") (simp_all add: Cons.IH is_header_line_def)
qed

lemma runs_from_nonempty: "r \<in> set (runs_from lines cur content) \<Longrightarrow> snd r \<noteq> []"
proof (induction lines arbitrary: cur content)
  case Nil
  then show ?case by (auto split: if_splits)
next
  case (Cons line lines)
  then show ?case
    by (cases "section_found line") (auto split: if_splits)
qed

lemma update_fresh: "k \<notin> fst ` set al \<Longrightarrow> AList.update k v al = al @ [(k, v)]"
  by (induction al) auto

lemma foldl_store_distinct:
  "distinct (map fst d @ map fst rs) \<Longrightarrow> foldl store_block d rs = d @ map block_of rs"
proof (induction rs arbitrary: d)
  case Nil
  show ?case by simp
next
  case (Cons r rs)
  from Cons.prems have fresh: "fst r \<notin> fst ` set d" by auto
  then have s: "store_block d r = d @ [block_of r]"
    by (simp add: store_block_def block_of_def update_fresh)
  from Cons.prems have "distinct (map fst (d @ [block_of r]) @ map fst rs)"
    by (auto simp: block_of_def)
  then have "foldl store_block (d @ [block_of r]) rs = (d @ [block_of r]) @ map block_of rs"
    by (rule Cons.IH)
  then show ?case by (simp add: s)
qed

text \<open>
  C2, as amended. For every text the runs of consecutive non-header lines are non-empty
  and concatenate, in line order, to exactly the lines of the input that are not section
  headers, so each such line lies in exactly one run and a header line in none. The
  map returned stores the block of each run under the label of the run, a later run
  overwriting an earlier one with the same label; when no label recurs among the runs
  the map holds exactly the blocks of the runs, one per run, in line order.
\<close>

theorem section_blocks_of_runs:
  "concat (map snd (line_runs text)) = non_header_lines text
   \<and> [] \<notin> snd ` set (line_runs text)
   \<and> parse_sections text = foldl store_block [] (line_runs text)
   \<and> (distinct (map fst (line_runs text)) \<longrightarrow> parse_sections text = map block_of (line_runs text))"
proof (intro conjI impI)
  show "concat (map snd (line_runs text)) = non_header_lines text"
    by (simp add: line_runs_def non_header_lines_def runs_from_concat)
  show "[] \<notin> snd ` set (line_runs text)"
    unfolding line_runs_def using runs_from_nonempty by force
  show p: "parse_sections text = foldl store_block [] (line_runs text)"
    by (simp add: parse_sections_def line_runs_def parse_loop_runs)
  assume "distinct (map fst (line_runs text))"
  then have "foldl store_block [] (line_runs text) = [] @ map block_of (line_runs text)"
    by (intro foldl_store_distinct) simp
  then show "parse_sections text = map block_of (line_runs text)"
    by (simp add: p)
qed

theorem section_blocks_of_runs_witness:
  "parse_sections sample_resume
     = [(''experience'', ''2020-2022 Software Engineer built APIs''),
        (''education'', ''Bachelor of Science in CS''), (''skills'', ''python sql'')]
   \<and> line_runs sample_resume
     = [(''experience'', [''2020-2022 Software Engineer built APIs'', []]),
        (''education'', [''Bachelor of Science in CS'', []]), (''skills'', [''python sql''])]"
proof -
  have r: "line_runs sample_resume
     = [(''experience'', [''2020-2022 Software Engineer built APIs'', []]),
        (''education'', [''Bachelor of Science in CS'', []]), (''skills'', [''python sql''])]"
    by code_simp
  have d: "distinct (map fst (line_runs sample_resume))"
    unfolding r by simp
  from section_blocks_of_runs [of sample_resume] d
  have "parse_sections sample_resume = map block_of (line_runs sample_resume)"
    by blast
  moreover have "map block_of (line_runs sample_resume)
     = [(''experience'', ''2020-2022 Software Engineer built APIs''),
        (''education'', ''Bachelor of Science in CS''), (''skills'', ''python sql'')]"
    by code_simp
  ultimately show ?thesis using r by simp
qed

text \<open>
  C2 as stated fails. With a repeated \<open>Skills\<close> header the line \<open>a\<close> of the first run is
  in no block of the result; and the block of the text \<open>" a"\<close> is \<open>"a"\<close>, not the line.
\<close>

theorem section_blocks_partition_counterexample:
  "parse_sections repeated_skills = [(''skills'', ''b'')]
   \<and> block_lines (parse_sections repeated_skills) = [''b'']
   \<and> non_header_lines repeated_skills = [''a'', ''b'']
   \<and> block_lines (parse_sections '' a'') = [''a'']
   \<and> non_header_lines '' a'' = ['' a'']"
  by code_simp

section \<open>Keyword matching\<close>

lemma code_lt_256: "code c < 256"
  by (simp add: code_def)

lemma code_lower_char:
  "code (lower_char c) =
     (if (65 \<le> code c \<and> code c \<le> 90) \<or> (192 \<le> code c \<and> code c \<le> 222 \<and> code c \<noteq> 215)
      then code c + 32 else code c)"
  by (auto simp: lower_char_def Let_def code_def)

lemma lower_char_fixed:
  "\<not> ((65 \<le> code d \<and> code d \<le> 90) \<or> (192 \<le> code d \<and> code d \<le> 222 \<and> code d \<noteq> 215))
   \<Longrightarrow> lower_char d = d"
  by (auto simp: lower_char_def Let_def)

lemma lower_char_idem: "lower_char (lower_char c) = lower_char c"
proof (rule lower_char_fixed)
  show "\<not> ((65 \<le> code (lower_char c) \<and> code (lower_char c) \<le> 90)
          \<or> (192 \<le> code (lower_char c) \<and> code (lower_char c) \<le> 222 \<and> code (lower_char c) \<noteq> 215))"
    unfolding code_lower_char by auto
qed

lemma lower_idem: "lower (lower s) = lower s"
  by (simp add: lower_def lower_char_idem)

text \<open>
  C4 as stated fails: \<open>get_job_keywords\<close> lowercases every keyword, so a taxonomy
  keyword \<open>Python\<close> that matches is listed as \<open>python\<close>.
\<close>

theorem matched_keywords_taxonomy_casing_counterexample:
  "job_data.core_skills (job_data_of python_roles ''dev'') = [''Python'']
   \<and> matched_keywords (calculate_keyword_match python_roles ''I know Python'' ''dev'') = [''python'']
   \<and> ''Python'' \<notin> set (matched_keywords (calculate_keyword_match python_roles ''I know Python'' ''dev''))"
  by code_simp

text \<open>
  C4, as amended. For every resume text and job field, \<open>matched_keywords\<close> lists, in
  taxonomy order, the lowercased form of each taxonomy keyword whose lowercased form
  occurs in the lowercased text; every entry is its own lowercase form.
\<close>

theorem matched_keywords_lowercased:
  "matched_keywords (calculate_keyword_match roles t jf) =
     map lower (filter (\<lambda>k. sub_in (lower k) (lower t))
       (job_data.core_skills (job_data_of roles jf) @ job_data.tools (job_data_of roles jf)
        @ job_data.frameworks (job_data_of roles jf) @ keywords (job_data_of roles jf)))
   \<and> map lower (matched_keywords (calculate_keyword_match roles t jf))
       = matched_keywords (calculate_keyword_match roles t jf)"
proof -
  let ?ks = "job_data.core_skills (job_data_of roles jf) @ job_data.tools (job_data_of roles jf)
        @ job_data.frameworks (job_data_of roles jf) @ keywords (job_data_of roles jf)"
  have "matched_keywords (calculate_keyword_match roles t jf)
        = filter (\<lambda>k. sub_in (lower k) (lower t)) (map lower ?ks)"
    by (simp add: calculate_keyword_match_def get_job_keywords_def Let_def match_loop_filter)
  also have "\<dots> = map lower (filter (\<lambda>k. sub_in (lower k) (lower t)) ?ks)"
    by (simp only: filter_map o_def lower_idem)
  finally have 1: "matched_keywords (calculate_keyword_match roles t jf)
        = map lower (filter (\<lambda>k. sub_in (lower k) (lower t)) ?ks)" .
  have 2: "map lower (matched_keywords (calculate_keyword_match roles t jf))
       = matched_keywords (calculate_keyword_match roles t jf)"
    unfolding 1 by (simp add: lower_idem)
  from 1 2 show ?thesis by blast
qed

section \<open>Contact extraction\<close>

lemma contact_line_contact:
  "extract_contact_info contact_line
     = \<lparr> email = Some ''john@x.com'', phone = Some [],
         linkedin = Some ''linkedin.com/in/john'', github = Some ''github.com/john'' \<rparr>"
  by code_simp

text \<open>
  C3. On the contact line of the scenario the phone pattern matches \<open>555-123-4567\<close>,
  but \<open>re.findall\<close> returns, for a pattern with one group, the text of that group: the
  optional country-code group, which takes no part in the match. The phone stored is
  the empty string, which counts as absent, and the contact sub-score is 70.
\<close>

theorem contact_line_phone_is_empty:
  "extract_contact_info contact_line
     = \<lparr> email = Some ''john@x.com'', phone = Some [],
         linkedin = Some ''linkedin.com/in/john'', github = Some ''github.com/john'' \<rparr>
   \<and> map_option fst (re_search phone_pattern contact_line) = Some ''555-123-4567''
   \<and> re_findall phone_pattern contact_line = [Str []]
   \<and> contact_score (extract_contact_info contact_line) = 70
   \<and> item (breakdown (calculate_ats_score (parse n contact_line md) ka)) ''contact_info'' = 70
   \<and> ''No phone number found'' \<in> set (issues (analyze_formatting contact_line md))"
proof -
  have 1: "map_option fst (re_search phone_pattern contact_line) = Some ''555-123-4567''"
    by code_simp
  have 2: "re_findall phone_pattern contact_line = [Str []]"
    by code_simp
  have 3: "contact_score (extract_contact_info contact_line) = 70"
    by (simp add: contact_line_contact contact_score_def truthy_def)
  have 4: "item (breakdown (calculate_ats_score (parse n contact_line md) ka)) ''contact_info'' = 70"
    by (simp add: calculate_ats_score_def Let_def item_def parse_def 3)
  have 5: "''No phone number found'' \<in> set (issues (analyze_formatting contact_line md))"
    by (simp add: analyze_formatting_def Let_def run_checks_snd contact_line_contact truthy_def)
  from contact_line_contact 1 2 3 4 5 show ?thesis by blast
qed

section \<open>The empty resume\<close>

lemma empty_parse_sections: "parse_sections [] = [(''header'', [])]"
  by code_simp

lemma empty_contact: "extract_contact_info [] = \<lparr> email = None, phone = None, linkedin = None, github = None \<rparr>"
  by code_simp

lemma empty_experience: "extract_experience [] = []"
  by code_simp

lemma empty_education: "extract_education [] = []"
  by code_simp

lemma empty_missing: "missing_sections [] = [''experience'', ''education'', ''skills'']"
  by code_simp

lemma empty_sections_score: "sections_score [(''header'', [])] = 0"
  by code_simp

lemma empty_words: "split_ws [] = []"
  by (simp add: split_ws_def)

lemma empty_lower: "lower [] = []"
  by (simp add: lower_def)

lemma empty_contact_score:
  "contact_score \<lparr> email = None, phone = None, linkedin = None, github = None \<rparr> = 0"
  by (simp add: contact_score_def truthy_def)

lemma empty_formatting:
  assumes "md ''has_images'' = Some False"
  shows "analyze_formatting [] md = \<lparr> score = 40,
     issues = [''Resume too short (< 300 words)'', ''Missing sections: experience, education, skills'',
               ''No email address found'', ''No phone number found''],
     sections_found = [''header''], word_count = 0 \<rparr>"
proof -
  have i: "\<not> has_images md" using assms by (simp add: has_images_def)
  have f: "fst (run_checks [] md) = 40"
    by (simp add: run_checks_fst i empty_words empty_missing empty_contact truthy_def)
  have s: "snd (run_checks [] md) = [''Resume too short (< 300 words)'',
       ''Missing sections: experience, education, skills'',
               ''No email address found'', ''No phone number found'']"
    by (simp add: run_checks_snd i empty_words empty_missing empty_contact truthy_def)
  show ?thesis
    by (simp add: analyze_formatting_def Let_def f s empty_parse_sections empty_words)
qed

text \<open>
  C1. For the empty text, metadata with \<open>has_images\<close> false and a job field whose
  profile has five keywords none of which matches, the pipeline gives word count 0, a
  formatting score of at least 0, match percentage 0, and the grade F for both
  composites. The language model is assumed to find no token and no noun chunk in the
  empty text, and the cosine of the external vectoriser to lie in \<open>[0, 1]\<close>.
\<close>

theorem empty_resume_scenario:
  assumes "tokens n [] = []" and "noun_chunks n [] = []"
    and "\<forall>x y s. sim x y = Some s \<longrightarrow> 0 \<le> s \<and> s \<le> 1"
    and "md ''has_images'' = Some False"
    and "length (get_job_keywords roles jf) = 5"
    and "total_matched (calculate_keyword_match roles [] jf) = 0"
  shows "word_count (formatting (parsed (analyze_resume n sim roles [] md jf))) = 0
       \<and> 0 \<le> score (formatting (parsed (analyze_resume n sim roles [] md jf)))
       \<and> match_percentage (keyword_match (analysis (analyze_resume n sim roles [] md jf))) = 0
       \<and> grade (ats (analyze_resume n sim roles [] md jf)) = ''F''
       \<and> grade (job_fit (analyze_resume n sim roles [] md jf)) = ''F''"
proof -
  let ?r = "analyze_resume n sim roles [] md jf"
  note ef = empty_formatting [of md, OF assms(4)]
  have sk: "extract_skills n [] = []"
    using assms(1,2) by (simp add: extract_skills_def Let_def empty_lower)
  have p: "parsed ?r = \<lparr> sections = [(''header'', [])],
       contact = \<lparr> email = None, phone = None, linkedin = None, github = None \<rparr>,
       skills = [], experience = [], education = [],
       formatting = analyze_formatting [] md \<rparr>"
    by (simp add: analyze_resume_def Let_def parse_def empty_parse_sections empty_contact sk
          empty_experience empty_education)
  have ka: "analysis ?r = analyze sim roles [] [] jf"
    by (simp add: analyze_resume_def Let_def parse_def sk)
  have ne: "get_job_keywords roles jf \<noteq> []" using assms(5) by auto
  have m0: "length (fst (match_loop (get_job_keywords roles jf) (lower []))) = 0"
    using assms(6) by (simp add: calculate_keyword_match_def Let_def split_beta)
  have mp: "match_percentage (calculate_keyword_match roles [] jf) = 0"
    using m0 ne by (simp add: calculate_keyword_match_def Let_def split_beta round2_zero)
  have cat0: "categorized.core_skills (categorize_skills roles [] jf) = []"
    by (simp add: categorize_skills_filter Let_def)
  have sem: "0 \<le> calculate_semantic_similarity sim roles [] jf
         \<and> calculate_semantic_similarity sim roles [] jf \<le> 100"
    using assms(3) by (rule semantic_similarity_bounds)
  have 1: "word_count (formatting (parsed ?r)) = 0"
    by (simp add: p ef)
  have 2: "0 \<le> score (formatting (parsed ?r))"
    by (simp add: p ef)
  have 3: "match_percentage (keyword_match (analysis ?r)) = 0"
    by (simp add: ka analyze_def mp)
  have a: "ats ?r = calculate_ats_score (parsed ?r) (analysis ?r)"
    by (simp add: analyze_resume_def Let_def)
  have j: "job_fit ?r = calculate_job_fit_score (parsed ?r) (analysis ?r)"
    by (simp add: analyze_resume_def Let_def)
  have ws: "weighted_total ''ats'' (breakdown (calculate_ats_score (parsed ?r) (analysis ?r))) = 51 / 2"
    unfolding p ka
    by (simp add: calculate_ats_score_def Let_def weighted_total_ats ef
          empty_sections_score readability_score_def empty_contact_score length_score_def
          keyword_score_def analyze_def mp)
  have 4: "grade (ats ?r) = ''F''"
    unfolding a using ws by (simp add: calculate_ats_score_def Let_def get_grade_def)
  have wj: "weighted_total ''job_fit'' (breakdown (calculate_job_fit_score (parsed ?r) (analysis ?r)))
        = calculate_semantic_similarity sim roles [] jf * (20 / 100) + 6"
    unfolding p ka
    by (simp add: calculate_job_fit_score_def Let_def weighted_total_job_fit experience_score_def
          analyze_def mp cat0)
  have "weighted_total ''job_fit'' (breakdown (calculate_job_fit_score (parsed ?r) (analysis ?r))) < 30"
    unfolding wj using sem by linarith
  then have 5: "grade (job_fit ?r) = ''F''"
    unfolding j by (simp add: calculate_job_fit_score_def Let_def get_grade_def)
  from 1 2 3 4 5 show ?thesis by blast
qed

theorem empty_resume_scenario_witness:
  "word_count (formatting (parsed (analyze_resume whitespace_nlp (\<lambda>_ _. Some 0) sample_roles []
      [''has_images'' \<mapsto> False] ''data_scientist''))) = 0
   \<and> 0 \<le> score (formatting (parsed (analyze_resume whitespace_nlp (\<lambda>_ _. Some 0) sample_roles []
      [''has_images'' \<mapsto> False] ''data_scientist'')))
   \<and> match_percentage (keyword_match (analysis (analyze_resume whitespace_nlp (\<lambda>_ _. Some 0)
      sample_roles [] [''has_images'' \<mapsto> False] ''data_scientist''))) = 0
   \<and> grade (ats (analyze_resume whitespace_nlp (\<lambda>_ _. Some 0) sample_roles []
      [''has_images'' \<mapsto> False] ''data_scientist'')) = ''F''
   \<and> grade (job_fit (analyze_resume whitespace_nlp (\<lambda>_ _. Some 0) sample_roles []
      [''has_images'' \<mapsto> False] ''data_scientist'')) = ''F''"
proof -
  have a: "tokens whitespace_nlp [] = []"
    by (simp add: whitespace_nlp_def split_ws_def)
  have b: "noun_chunks whitespace_nlp [] = []"
    by (simp add: whitespace_nlp_def)
  have c: "\<forall>x y s. (\<lambda>_ _. Some 0) (x::string) (y::string) = Some s \<longrightarrow> 0 \<le> s \<and> s \<le> (1::rat)"
    by simp
  have d: "[''has_images'' \<mapsto> False] ''has_images'' = Some False"
    by simp
  have e: "length (get_job_keywords sample_roles ''data_scientist'') = 5"
    by code_simp
  have f: "total_matched (calculate_keyword_match sample_roles [] ''data_scientist'') = 0"
    by code_simp
  from empty_resume_scenario [where n = whitespace_nlp and sim = "\<lambda>_ _. Some 0"
      and md = "[''has_images'' \<mapsto> False]" and roles = sample_roles
      and jf = "''data_scientist''", OF a b c d e f]
  show ?thesis .
qed

end
